theory Spec2Isabelle
  imports Main "HOL-Library.Finite_Map" "HOL-Library.Sublist"
begin

section \<open>Go values, panics and errors\<close>

text \<open>
  A Go \<^verbatim>\<open>interface{}\<close> value as the host framework hands it to the shape translators:
  the nil interface, a string, a bool, a slice, or a \<^verbatim>\<open>map[string]interface{}\<close>.
  Go maps are unordered, so a map is a finite map and not an association list.
\<close>

datatype go_value =
    GoNil
  | GoString string
  | GoBool bool
  | GoSlice "go_value list"
  | GoMap "(string, go_value) fmap"

text \<open>A failed type assertion and a nil pointer dereference both panic.\<close>

datatype go_panic = TypeAssertionPanic | NilDereferencePanic

text \<open>Indexing a Go map with a missing key gives the zero value, the nil interface.\<close>

definition map_index :: "(string, go_value) fmap \<Rightarrow> string \<Rightarrow> go_value" where
  "map_index m k = (case fmlookup m k of None \<Rightarrow> GoNil | Some v \<Rightarrow> v)"

text \<open>The type assertions \<^verbatim>\<open>v.(string)\<close>, \<^verbatim>\<open>v.(bool)\<close> and
  \<^verbatim>\<open>v.(map[string]interface{})\<close>.\<close>

definition assert_string :: "go_value \<Rightarrow> go_panic + string" where
  "assert_string v = (case v of GoString s \<Rightarrow> Inr s | _ \<Rightarrow> Inl TypeAssertionPanic)"

definition assert_bool :: "go_value \<Rightarrow> go_panic + bool" where
  "assert_bool v = (case v of GoBool b \<Rightarrow> Inr b | _ \<Rightarrow> Inl TypeAssertionPanic)"

definition assert_map :: "go_value \<Rightarrow> go_panic + (string, go_value) fmap" where
  "assert_map v = (case v of GoMap m \<Rightarrow> Inr m | _ \<Rightarrow> Inl TypeAssertionPanic)"

text \<open>\<^verbatim>\<open>aws.StringValue\<close> and \<^verbatim>\<open>aws.BoolValue\<close>: the pointee, or the zero value
  for a nil pointer. \<^verbatim>\<open>aws.String\<close> and \<^verbatim>\<open>aws.Bool\<close> are \<open>Some\<close>.\<close>

definition aws_StringValue :: "string option \<Rightarrow> string" where
  "aws_StringValue p = (case p of None \<Rightarrow> [] | Some s \<Rightarrow> s)"

definition aws_BoolValue :: "bool option \<Rightarrow> bool" where
  "aws_BoolValue p = (case p of None \<Rightarrow> False | Some b \<Rightarrow> b)"

text \<open>
  An error that comes from outside the adapters (the SDK, the ARN parser, the host
  framework). What the adapters ask of such an error is whether \<^verbatim>\<open>errors.As\<close> finds
  an \<^verbatim>\<open>awserr.Error\<close> in it, and then its \<^verbatim>\<open>Code()\<close> and \<^verbatim>\<open>Message()\<close>.
\<close>

datatype ext_error =
    AwsError string string
  | OtherError string

text \<open>\<^verbatim>\<open>tfawserr.ErrCodeEquals\<close> and \<^verbatim>\<open>tfawserr.ErrMessageContains\<close>; the error may
  be nil.\<close>

definition ErrCodeEquals :: "ext_error option \<Rightarrow> string \<Rightarrow> bool" where
  "ErrCodeEquals err code =
     (case err of Some (AwsError c m) \<Rightarrow> c = code | _ \<Rightarrow> False)"

definition ErrMessageContains :: "ext_error option \<Rightarrow> string \<Rightarrow> string \<Rightarrow> bool" where
  "ErrMessageContains err code message =
     (case err of Some (AwsError c m) \<Rightarrow> c = code \<and> sublist message m | _ \<Rightarrow> False)"

section \<open>Library functions on strings\<close>

text \<open>\<^verbatim>\<open>strings.HasPrefix(s, prefix)\<close>.\<close>

definition strings_HasPrefix :: "string \<Rightarrow> string \<Rightarrow> bool" where
  "strings_HasPrefix s p = prefix p s"

text \<open>
  \<^verbatim>\<open>strings.SplitN(s, sep, n)\<close> for a one-byte separator and \<open>n \<ge> 0\<close>: at most \<open>n\<close>
  substrings, the last one the unsplit remainder; no substring for \<open>n = 0\<close>.
\<close>

fun strings_SplitN :: "string \<Rightarrow> char \<Rightarrow> nat \<Rightarrow> string list" where
  "strings_SplitN s sep 0 = []"
| "strings_SplitN s sep (Suc 0) = [s]"
| "strings_SplitN s sep (Suc (Suc n)) =
     (if sep \<in> set s
      then takeWhile (\<lambda>c. c \<noteq> sep) s
             # strings_SplitN (tl (dropWhile (\<lambda>c. c \<noteq> sep) s)) sep (Suc n)
      else [s])"

text \<open>\<^verbatim>\<open>strings.Replace(s, old, new, 1)\<close>: the first occurrence of \<open>old\<close> replaced.\<close>

fun strings_Replace1 :: "string \<Rightarrow> string \<Rightarrow> string \<Rightarrow> string" where
  "strings_Replace1 [] old new = (if old = [] then new else [])"
| "strings_Replace1 (c # cs) old new =
     (if prefix old (c # cs) then new @ drop (length old) (c # cs)
      else c # strings_Replace1 cs old new)"

section \<open>The SDK's ARN type\<close>

record ARN =
  Partition :: string
  Service :: string
  Region :: string
  AccountID :: string
  Resource :: string

text \<open>
  \<^verbatim>\<open>arn.Parse\<close> of the AWS SDK, which the adapters call: the string must start with
  \<^verbatim>\<open>arn:\<close> and split at colons into six sections, the last one the unsplit rest.
\<close>

definition arn_Parse :: "string \<Rightarrow> ext_error + ARN" where
  "arn_Parse s =
     (if \<not> strings_HasPrefix s ''arn:'' then Inl (OtherError ''arn: invalid prefix'')
      else
        (let sections = strings_SplitN s CHR '':'' 6 in
         if length sections \<noteq> 6 then Inl (OtherError ''arn: not enough sections'')
         else Inr \<lparr>Partition = sections ! 1, Service = sections ! 2, Region = sections ! 3,
                   AccountID = sections ! 4, Resource = sections ! 5\<rparr>))"

text \<open>\<^verbatim>\<open>ARN.String()\<close>.\<close>

definition arn_String :: "ARN \<Rightarrow> string" where
  "arn_String a =
     ''arn:'' @ Partition a @ '':'' @ Service a @ '':'' @ Region a @ '':'' @ AccountID a
       @ '':'' @ Resource a"

section \<open>Errors the adapters build\<close>

text \<open>The remote recorder object of the configuration service, which one error message
  prints.\<close>

record RecordingGroup =
  AllSupported :: "bool option"
  IncludeGlobalResourceTypes :: "bool option"
  ResourceTypes :: "string option list"

record ConfigurationRecorder =
  Name :: "string option"
  RecordingGroup :: "RecordingGroup option"
  RoleARN :: "string option"

text \<open>
  An error made by \<^verbatim>\<open>fmt.Errorf\<close> is kept as its format string and its arguments, so
  that the error an adapter returns shows which message it is and which error it carries.
  \<open>Unchanged\<close> is an outside error returned as it came.
\<close>

datatype fmt_arg =
    ArgS string
  | ArgD nat
  | ArgE ext_error
  | ArgRecorders "ConfigurationRecorder option list"

datatype go_error =
    Errorf string "fmt_arg list"
  | Unchanged ext_error

text \<open>What a Go function of result type \<^verbatim>\<open>error\<close> does: it returns nil, returns an
  error, or panics.\<close>

datatype go_result = ReturnNil | ReturnErr go_error | Panicked go_panic

section \<open>S3 Control: shape translators and identifier parsing\<close>

record VpcConfiguration =
  VpcId :: "string option"

record PublicAccessBlockConfiguration =
  BlockPublicAcls :: "bool option"
  BlockPublicPolicy :: "bool option"
  IgnorePublicAcls :: "bool option"
  RestrictPublicBuckets :: "bool option"

definition expandS3AccessPointVpcConfiguration ::
    "go_value list \<Rightarrow> go_panic + VpcConfiguration option" where
  "expandS3AccessPointVpcConfiguration vConfig =
     (case vConfig of
        [] \<Rightarrow> Inr None
      | v # _ \<Rightarrow>
          if v = GoNil then Inr None
          else
            (case assert_map v of
               Inl p \<Rightarrow> Inl p
             | Inr mConfig \<Rightarrow>
                 (case assert_string (map_index mConfig ''vpc_id'') of
                    Inl p \<Rightarrow> Inl p
                  | Inr s \<Rightarrow> Inr (Some \<lparr>VpcId = Some s\<rparr>))))"

definition flattenS3AccessPointVpcConfiguration ::
    "VpcConfiguration option \<Rightarrow> go_value list" where
  "flattenS3AccessPointVpcConfiguration config =
     (case config of
        None \<Rightarrow> []
      | Some c \<Rightarrow>
          [GoMap (fmupd ''vpc_id'' (GoString (aws_StringValue (VpcId c))) fmempty)])"

definition expandS3AccessPointPublicAccessBlockConfiguration ::
    "go_value list \<Rightarrow> go_panic + PublicAccessBlockConfiguration option" where
  "expandS3AccessPointPublicAccessBlockConfiguration vConfig =
     (case vConfig of
        [] \<Rightarrow> Inr None
      | v # _ \<Rightarrow>
          if v = GoNil then Inr None
          else
            (case assert_map v of
               Inl p \<Rightarrow> Inl p
             | Inr mConfig \<Rightarrow>
            (case assert_bool (map_index mConfig ''block_public_acls'') of
               Inl p \<Rightarrow> Inl p
             | Inr acls \<Rightarrow>
            (case assert_bool (map_index mConfig ''block_public_policy'') of
               Inl p \<Rightarrow> Inl p
             | Inr pol \<Rightarrow>
            (case assert_bool (map_index mConfig ''ignore_public_acls'') of
               Inl p \<Rightarrow> Inl p
             | Inr ign \<Rightarrow>
            (case assert_bool (map_index mConfig ''restrict_public_buckets'') of
               Inl p \<Rightarrow> Inl p
             | Inr res \<Rightarrow>
                 Inr (Some \<lparr>BlockPublicAcls = Some acls, BlockPublicPolicy = Some pol,
                            IgnorePublicAcls = Some ign,
                            RestrictPublicBuckets = Some res\<rparr>)))))))"

definition flattenS3AccessPointPublicAccessBlockConfiguration ::
    "PublicAccessBlockConfiguration option \<Rightarrow> go_value list" where
  "flattenS3AccessPointPublicAccessBlockConfiguration config =
     (case config of
        None \<Rightarrow> []
      | Some c \<Rightarrow>
          [GoMap
            (fmupd ''block_public_acls'' (GoBool (aws_BoolValue (BlockPublicAcls c)))
            (fmupd ''block_public_policy'' (GoBool (aws_BoolValue (BlockPublicPolicy c)))
            (fmupd ''ignore_public_acls'' (GoBool (aws_BoolValue (IgnorePublicAcls c)))
            (fmupd ''restrict_public_buckets''
               (GoBool (aws_BoolValue (RestrictPublicBuckets c))) fmempty))))])"

text \<open>
  The configuration block lists that are structurally valid for the schema of
  \<^verbatim>\<open>ResourceAccessPoint\<close>: the empty list, or one map that carries the keys the
  block declares, each with a value of the declared type.
\<close>

fun is_string :: "go_value option \<Rightarrow> bool" where
  "is_string (Some (GoString s)) = True"
| "is_string _ = False"

fun is_bool :: "go_value option \<Rightarrow> bool" where
  "is_bool (Some (GoBool b)) = True"
| "is_bool _ = False"

fun valid_vpc_configuration :: "go_value list \<Rightarrow> bool" where
  "valid_vpc_configuration [] = True"
| "valid_vpc_configuration [GoMap m] =
     (fmdom m = {|''vpc_id''|} \<and> is_string (fmlookup m ''vpc_id''))"
| "valid_vpc_configuration _ = False"

fun valid_public_access_block_configuration :: "go_value list \<Rightarrow> bool" where
  "valid_public_access_block_configuration [] = True"
| "valid_public_access_block_configuration [GoMap m] =
     (fmdom m = {|''block_public_acls'', ''block_public_policy'', ''ignore_public_acls'',
                  ''restrict_public_buckets''|}
      \<and> is_bool (fmlookup m ''block_public_acls'')
      \<and> is_bool (fmlookup m ''block_public_policy'')
      \<and> is_bool (fmlookup m ''ignore_public_acls'')
      \<and> is_bool (fmlookup m ''restrict_public_buckets''))"
| "valid_public_access_block_configuration _ = False"

text \<open>\<^verbatim>\<open>AccessPointParseID\<close>: the account id and the access point name (S3) or ARN
  (S3 on Outposts).\<close>

definition AccessPointParseID :: "string \<Rightarrow> go_error + (string \<times> string)" where
  "AccessPointParseID ident =
     (case arn_Parse ident of
        Inr parsedARN \<Rightarrow> Inr (AccountID parsedARN, ident)
      | Inl err \<Rightarrow>
          (let parts = strings_SplitN ident CHR '':'' 2 in
           if length parts \<noteq> 2 \<or> parts ! 0 = [] \<or> parts ! 1 = []
           then Inl (Errorf ''unexpected format of ID (%s), expected ACCOUNT_ID:NAME''
                       [ArgS ident])
           else Inr (parts ! 0, parts ! 1)))"

section \<open>The remote API and the host framework\<close>

subsection \<open>S3 Control requests and responses\<close>

text \<open>
  The requests of \<^verbatim>\<open>GetAccessPoint\<close>, \<^verbatim>\<open>GetAccessPointPolicy\<close>,
  \<^verbatim>\<open>GetAccessPointPolicyStatus\<close>, \<^verbatim>\<open>DeleteAccessPoint\<close> and
  \<^verbatim>\<open>DeleteAccessPointPolicy\<close> all consist of the fields \<^verbatim>\<open>AccountId\<close> and
  \<^verbatim>\<open>Name\<close>; the requests of \<^verbatim>\<open>PutAccessPointPolicy\<close> and
  \<^verbatim>\<open>CreateAccessPoint\<close> add fields to these two. Of the responses, the fields the
  adapter reads are kept.
\<close>

record GetAccessPointInput =
  AccountId :: "string option"
  Name :: "string option"

type_synonym GetAccessPointPolicyInput = GetAccessPointInput
type_synonym GetAccessPointPolicyStatusInput = GetAccessPointInput
type_synonym DeleteAccessPointInput = GetAccessPointInput
type_synonym DeleteAccessPointPolicyInput = GetAccessPointInput

record PutAccessPointPolicyInput = GetAccessPointInput +
  Policy :: "string option"

record CreateAccessPointInput = GetAccessPointInput +
  Bucket :: "string option"
  PublicAccessBlockConfiguration :: "PublicAccessBlockConfiguration option"
  VpcConfiguration :: "VpcConfiguration option"

record CreateAccessPointOutput =
  AccessPointArn :: "string option"

record GetAccessPointOutput =
  Bucket :: "string option"
  Name :: "string option"
  NetworkOrigin :: "string option"
  PublicAccessBlockConfiguration :: "PublicAccessBlockConfiguration option"
  VpcConfiguration :: "VpcConfiguration option"

record GetAccessPointPolicyOutput =
  Policy :: "string option"

record PolicyStatus =
  IsPublic :: "bool option"

record GetAccessPointPolicyStatusOutput =
  PolicyStatus :: "PolicyStatus option"

subsection \<open>Config service requests and responses\<close>

record PutConfigurationRecorderInput =
  ConfigurationRecorder :: "ConfigurationRecorder option"

record DescribeConfigurationRecordersInput =
  ConfigurationRecorderNames :: "string option list"

record DescribeConfigurationRecordersOutput =
  ConfigurationRecorders :: "ConfigurationRecorder option list"

record DeleteConfigurationRecorderInput =
  ConfigurationRecorderName :: "string option"

subsection \<open>CloudWatch Events requests and responses\<close>

record Target =
  Arn :: "string option"

record ListTargetsByRuleInput =
  EventBusName :: "string option"
  Limit :: "int option"
  NextToken :: "string option"
  Rule :: "string option"

record ListTargetsByRuleOutput =
  NextToken :: "string option"
  Targets :: "Target option list"

subsection \<open>Connections\<close>

text \<open>
  The remote service is a state machine over a state \<open>'r\<close> that the adapters do not
  see: every API call takes the request and the remote state and gives the response, the
  error (nil is \<open>None\<close>) and the next remote state. Where the adapter discards the
  response (\<^verbatim>\<open>_, err := ...\<close>) only the error is kept.
\<close>

record 'r S3Control =
  CreateAccessPoint ::
    "CreateAccessPointInput \<Rightarrow> 'r \<Rightarrow> (CreateAccessPointOutput option \<times> ext_error option) \<times> 'r"
  PutAccessPointPolicy :: "PutAccessPointPolicyInput \<Rightarrow> 'r \<Rightarrow> ext_error option \<times> 'r"
  DeleteAccessPointPolicy :: "DeleteAccessPointPolicyInput \<Rightarrow> 'r \<Rightarrow> ext_error option \<times> 'r"
  DeleteAccessPoint :: "DeleteAccessPointInput \<Rightarrow> 'r \<Rightarrow> ext_error option \<times> 'r"
  GetAccessPoint ::
    "GetAccessPointInput \<Rightarrow> 'r \<Rightarrow> (GetAccessPointOutput option \<times> ext_error option) \<times> 'r"
  GetAccessPointPolicy ::
    "GetAccessPointPolicyInput \<Rightarrow> 'r
       \<Rightarrow> (GetAccessPointPolicyOutput option \<times> ext_error option) \<times> 'r"
  GetAccessPointPolicyStatus ::
    "GetAccessPointPolicyStatusInput \<Rightarrow> 'r
       \<Rightarrow> (GetAccessPointPolicyStatusOutput option \<times> ext_error option) \<times> 'r"

record 'r ConfigService =
  PutConfigurationRecorder :: "PutConfigurationRecorderInput \<Rightarrow> 'r \<Rightarrow> ext_error option \<times> 'r"
  DescribeConfigurationRecorders ::
    "DescribeConfigurationRecordersInput \<Rightarrow> 'r
       \<Rightarrow> (DescribeConfigurationRecordersOutput option \<times> ext_error option) \<times> 'r"
  DeleteConfigurationRecorder ::
    "DeleteConfigurationRecorderInput \<Rightarrow> 'r \<Rightarrow> ext_error option \<times> 'r"

record 'r CloudWatchEvents =
  ListTargetsByRule ::
    "ListTargetsByRuleInput \<Rightarrow> 'r \<Rightarrow> (ListTargetsByRuleOutput option \<times> ext_error option) \<times> 'r"

text \<open>The calls issued so far are recorded next to the remote state.\<close>

datatype api_call =
    CallCreateAccessPoint CreateAccessPointInput
  | CallPutAccessPointPolicy PutAccessPointPolicyInput
  | CallDeleteAccessPointPolicy DeleteAccessPointPolicyInput
  | CallDeleteAccessPoint DeleteAccessPointInput
  | CallGetAccessPoint GetAccessPointInput
  | CallGetAccessPointPolicy GetAccessPointPolicyInput
  | CallGetAccessPointPolicyStatus GetAccessPointPolicyStatusInput
  | CallPutConfigurationRecorder PutConfigurationRecorderInput
  | CallDescribeConfigurationRecorders DescribeConfigurationRecordersInput
  | CallDeleteConfigurationRecorder DeleteConfigurationRecorderInput
  | CallListTargetsByRule ListTargetsByRuleInput

record 'r world =
  remote :: 'r
  calls :: "api_call list"

definition issue :: "api_call \<Rightarrow> ('r \<Rightarrow> 'a \<times> 'r) \<Rightarrow> 'r world \<Rightarrow> 'a \<times> 'r world" where
  "issue c handler w =
     (case handler (remote w) of (res, r') \<Rightarrow> (res, \<lparr>remote = r', calls = calls w @ [c]\<rparr>))"

text \<open>The calls that change the remote object, as opposed to the lookups.\<close>

fun is_mutation :: "api_call \<Rightarrow> bool" where
  "is_mutation (CallCreateAccessPoint i) = True"
| "is_mutation (CallPutAccessPointPolicy i) = True"
| "is_mutation (CallDeleteAccessPointPolicy i) = True"
| "is_mutation (CallDeleteAccessPoint i) = True"
| "is_mutation (CallPutConfigurationRecorder i) = True"
| "is_mutation (CallDeleteConfigurationRecorder i) = True"
| "is_mutation c = False"

text \<open>
  \<^verbatim>\<open>conns.AWSClient\<close>, the \<^verbatim>\<open>meta\<close> argument of every operation.
  \<^verbatim>\<open>RegionalHostname\<close> is a method declared outside the given sources and is taken
  as a parameter.
\<close>

record 'r AWSClient =
  AccountID :: string
  Partition :: string
  Region :: string
  RegionalHostname :: "string \<Rightarrow> string"
  S3ControlConn :: "'r S3Control"
  ConfigConn :: "'r ConfigService"

subsection \<open>Resource data\<close>

text \<open>
  \<^verbatim>\<open>schema.ResourceData\<close> of the host framework: the stored identifier, the flag read
  by \<^verbatim>\<open>d.IsNewResource()\<close> (the framework sets it before it calls Create), and the
  attributes at the types the schema declares, so that \<^verbatim>\<open>d.Get("k")\<close> is the field
  \<open>attr_k\<close>. Both resources declare a string attribute \<^verbatim>\<open>name\<close>.
\<close>

record ResourceData =
  d_Id :: string
  IsNewResource :: bool
  attr_name :: string

text \<open>
  The access point attributes. \<open>attr_policy_prior\<close> is the value of \<^verbatim>\<open>policy\<close> in the
  prior state, against which \<^verbatim>\<open>d.HasChange("policy")\<close> compares the planned one.
\<close>

record AccessPointData = ResourceData +
  attr_account_id :: string
  attr_arn :: string
  attr_bucket :: string
  attr_domain_name :: string
  attr_has_public_access_policy :: bool
  attr_network_origin :: string
  attr_policy :: string
  attr_policy_prior :: string
  attr_public_access_block_configuration :: "go_value list"
  attr_vpc_configuration :: "go_value list"

record RecorderData = ResourceData +
  attr_role_arn :: string
  attr_recording_group :: "go_value list"

text \<open>
  \<^verbatim>\<open>d.Set\<close> of a configuration block fails when the value does not fit the schema of
  the block: every element must be nil or a map whose keys are declared and whose values
  have the declared types. The framework's own message is not modelled.
\<close>

datatype schema_type = TypeString | TypeBool | TypeSet

fun value_has_type :: "schema_type \<Rightarrow> go_value \<Rightarrow> bool" where
  "value_has_type TypeString (GoString s) = True"
| "value_has_type TypeBool (GoBool b) = True"
| "value_has_type TypeSet (GoSlice vs) = list_all (\<lambda>v. is_string (Some v)) vs"
| "value_has_type t v = False"

definition element_conforms :: "(string \<times> schema_type) list \<Rightarrow> go_value \<Rightarrow> bool" where
  "element_conforms sch v =
     (case v of
        GoNil \<Rightarrow> True
      | GoMap m \<Rightarrow>
          fmpred (\<lambda>k x. case map_of sch k of None \<Rightarrow> False | Some t \<Rightarrow> value_has_type t x) m
      | _ \<Rightarrow> False)"

definition Set_block :: "(string \<times> schema_type) list \<Rightarrow> go_value list \<Rightarrow> ext_error option" where
  "Set_block sch vs =
     (if list_all (element_conforms sch) vs then None
      else Some (OtherError ''value does not match the schema''))"

definition public_access_block_configuration_schema :: "(string \<times> schema_type) list" where
  "public_access_block_configuration_schema =
     [(''block_public_acls'', TypeBool), (''block_public_policy'', TypeBool),
      (''ignore_public_acls'', TypeBool), (''restrict_public_buckets'', TypeBool)]"

definition vpc_configuration_schema :: "(string \<times> schema_type) list" where
  "vpc_configuration_schema = [(''vpc_id'', TypeString)]"

definition recording_group_schema :: "(string \<times> schema_type) list" where
  "recording_group_schema =
     [(''all_supported'', TypeBool), (''include_global_resource_types'', TypeBool),
      (''resource_types'', TypeSet)]"

section \<open>The access point adapter\<close>

text \<open>
  Modelled from the spec: the constant \<^verbatim>\<open>errCodeNoSuchAccessPoint\<close> is declared in a
  file of the package that is not among the sources; it is the error code
  \<^verbatim>\<open>NoSuchAccessPoint\<close> that the lookup reports for an absent access point, the code
  that the Delete operation names literally.
\<close>

definition errCodeNoSuchAccessPoint :: string where
  "errCodeNoSuchAccessPoint = ''NoSuchAccessPoint''"

text \<open>
  Read, lines 205 to 238: the \<^verbatim>\<open>arn\<close> and \<^verbatim>\<open>bucket\<close> attributes, for an access
  point on Outposts (the name is an ARN) and for any other.
\<close>

definition readArnAndBucket ::
    "'r AWSClient \<Rightarrow> string \<Rightarrow> string \<Rightarrow> GetAccessPointOutput \<Rightarrow> AccessPointData
       \<Rightarrow> go_error + AccessPointData" where
  "readArnAndBucket meta accountId name output d =
     (if strings_HasPrefix name ''arn:'' then
        (case arn_Parse name of
           Inl err \<Rightarrow>
             Inl (Errorf ''error parsing S3 Control Access Point ARN (%s): %w''
                    [ArgS name, ArgE err])
         | Inr parsedAccessPointARN \<Rightarrow>
             (let bucketARN =
                \<lparr>ARN.Partition = ARN.Partition parsedAccessPointARN,
                 Service = Service parsedAccessPointARN,
                 ARN.Region = ARN.Region parsedAccessPointARN,
                 ARN.AccountID = ARN.AccountID parsedAccessPointARN,
                 Resource =
                   strings_Replace1 (Resource parsedAccessPointARN)
                     (''accesspoint/'' @ aws_StringValue (GetAccessPointOutput.Name output))
                     (''bucket/'' @ aws_StringValue (GetAccessPointOutput.Bucket output))\<rparr>
              in Inr (d\<lparr>attr_arn := name, attr_bucket := arn_String bucketARN\<rparr>)))
      else
        (let accessPointARN =
           \<lparr>ARN.Partition = AWSClient.Partition meta,
            Service = ''s3'',
            ARN.Region = AWSClient.Region meta,
            ARN.AccountID = accountId,
            Resource = ''accesspoint/'' @ aws_StringValue (GetAccessPointOutput.Name output)\<rparr>
         in Inr (d\<lparr>attr_arn := arn_String accessPointARN,
                   attr_bucket := aws_StringValue (GetAccessPointOutput.Bucket output)\<rparr>)))"

text \<open>Read, lines 240 to 249: the attributes copied or flattened from the response.\<close>

definition readOutputFields ::
    "'r AWSClient \<Rightarrow> string \<Rightarrow> GetAccessPointOutput \<Rightarrow> AccessPointData
       \<Rightarrow> go_error option \<times> AccessPointData" where
  "readOutputFields meta accountId output d =
     (let d1 = d\<lparr>attr_account_id := accountId,
                 attr_domain_name :=
                   RegionalHostname meta
                     (aws_StringValue (GetAccessPointOutput.Name output) @ ''-'' @ accountId
                        @ ''.s3-accesspoint''),
                 attr_name := aws_StringValue (GetAccessPointOutput.Name output),
                 attr_network_origin := aws_StringValue (NetworkOrigin output)\<rparr>;
          pab = flattenS3AccessPointPublicAccessBlockConfiguration
                  (GetAccessPointOutput.PublicAccessBlockConfiguration output);
          vpc = flattenS3AccessPointVpcConfiguration
                  (GetAccessPointOutput.VpcConfiguration output)
      in case Set_block public_access_block_configuration_schema pab of
           Some err \<Rightarrow>
             (Some (Errorf ''error setting public_access_block_configuration: %s'' [ArgE err]),
              d1)
         | None \<Rightarrow>
             (let d2 = d1\<lparr>attr_public_access_block_configuration := pab\<rparr> in
              case Set_block vpc_configuration_schema vpc of
                Some err \<Rightarrow>
                  (Some (Errorf ''error setting vpc_configuration: %s'' [ArgE err]), d2)
              | None \<Rightarrow> (None, d2\<lparr>attr_vpc_configuration := vpc\<rparr>)))"

text \<open>Read, lines 266 to 288: the policy status, which an access point on Outposts
  cannot have.\<close>

definition readPolicyStatus ::
    "'r AWSClient \<Rightarrow> string \<Rightarrow> string \<Rightarrow> AccessPointData \<Rightarrow> 'r world
       \<Rightarrow> go_result \<times> AccessPointData \<times> 'r world" where
  "readPolicyStatus meta accountId name d w =
     (if strings_HasPrefix name ''arn:''
      then (ReturnNil, d\<lparr>attr_has_public_access_policy := False\<rparr>, w)
      else
        (let input = \<lparr>AccountId = Some accountId, GetAccessPointInput.Name = Some name\<rparr> in
         case issue (CallGetAccessPointPolicyStatus input)
                (GetAccessPointPolicyStatus (S3ControlConn meta) input) w of
           ((policyStatusOutput, err), w1) \<Rightarrow>
             if ErrMessageContains err ''NoSuchAccessPointPolicy'' []
             then (ReturnNil, d\<lparr>attr_has_public_access_policy := False\<rparr>, w1)
             else
               (case err of
                  Some e \<Rightarrow>
                    (ReturnErr (Errorf ''error reading S3 Access Point (%s) policy status: %s''
                                  [ArgS (d_Id d), ArgE e]), d, w1)
                | None \<Rightarrow>
                    (case policyStatusOutput of
                       None \<Rightarrow> (Panicked NilDereferencePanic, d, w1)
                     | Some pso \<Rightarrow>
                         (case PolicyStatus pso of
                            None \<Rightarrow> (Panicked NilDereferencePanic, d, w1)
                          | Some ps \<Rightarrow>
                              (ReturnNil,
                               d\<lparr>attr_has_public_access_policy :=
                                    aws_BoolValue (IsPublic ps)\<rparr>, w1))))))"

text \<open>Read, lines 251 to 264, and on to the policy status.\<close>

definition readPolicy ::
    "'r AWSClient \<Rightarrow> string \<Rightarrow> string \<Rightarrow> AccessPointData \<Rightarrow> 'r world
       \<Rightarrow> go_result \<times> AccessPointData \<times> 'r world" where
  "readPolicy meta accountId name d w =
     (let input = \<lparr>AccountId = Some accountId, GetAccessPointInput.Name = Some name\<rparr> in
      case issue (CallGetAccessPointPolicy input)
             (GetAccessPointPolicy (S3ControlConn meta) input) w of
        ((policyOutput, err), w1) \<Rightarrow>
          if ErrMessageContains err ''NoSuchAccessPointPolicy'' []
          then readPolicyStatus meta accountId name (d\<lparr>attr_policy := []\<rparr>) w1
          else
            (case err of
               Some e \<Rightarrow>
                 (ReturnErr (Errorf ''error reading S3 Access Point (%s) policy: %s''
                               [ArgS (d_Id d), ArgE e]), d, w1)
             | None \<Rightarrow>
                 (case policyOutput of
                    None \<Rightarrow> (Panicked NilDereferencePanic, d, w1)
                  | Some po \<Rightarrow>
                      readPolicyStatus meta accountId name
                        (d\<lparr>attr_policy :=
                             aws_StringValue (GetAccessPointPolicyOutput.Policy po)\<rparr>) w1)))"

definition resourceAccessPointRead ::
    "'r AWSClient \<Rightarrow> AccessPointData \<Rightarrow> 'r world \<Rightarrow> go_result \<times> AccessPointData \<times> 'r world"
    where
  "resourceAccessPointRead meta d w =
     (case AccessPointParseID (d_Id d) of
        Inl err \<Rightarrow> (ReturnErr err, d, w)
      | Inr (accountId, name) \<Rightarrow>
          (let input = \<lparr>AccountId = Some accountId, GetAccessPointInput.Name = Some name\<rparr> in
           case issue (CallGetAccessPoint input) (GetAccessPoint (S3ControlConn meta) input) w of
             ((output, err), w1) \<Rightarrow>
               if \<not> IsNewResource d \<and> ErrCodeEquals err errCodeNoSuchAccessPoint
               then (ReturnNil, d\<lparr>d_Id := []\<rparr>, w1)
               else
                 (case err of
                    Some e \<Rightarrow>
                      (ReturnErr (Errorf ''error reading S3 Access Point (%s): %w''
                                    [ArgS (d_Id d), ArgE e]), d, w1)
                  | None \<Rightarrow>
                      (case output of
                         None \<Rightarrow>
                           (ReturnErr (Errorf ''error reading S3 Access Point (%s): empty response''
                                         [ArgS (d_Id d)]), d, w1)
                       | Some out \<Rightarrow>
                           (case readArnAndBucket meta accountId name out d of
                              Inl e \<Rightarrow> (ReturnErr e, d, w1)
                            | Inr d1 \<Rightarrow>
                                (case readOutputFields meta accountId out d1 of
                                   (Some e, d2) \<Rightarrow> (ReturnErr e, d2, w1)
                                 | (None, d2) \<Rightarrow> readPolicy meta accountId name d2 w1))))))"

text \<open>
  Create. \<^verbatim>\<open>d.GetOk\<close> of a string attribute is true when the string is not empty.
  The struct literal of the request evaluates the expanders in the order written, and a
  panic of one of them ends the operation before any call.
\<close>

definition resourceAccessPointCreate ::
    "'r AWSClient \<Rightarrow> AccessPointData \<Rightarrow> 'r world \<Rightarrow> go_result \<times> AccessPointData \<times> 'r world"
    where
  "resourceAccessPointCreate meta d w =
     (let accountId =
            (if attr_account_id d \<noteq> [] then attr_account_id d else AWSClient.AccountID meta);
          name = attr_name d
      in
      case expandS3AccessPointPublicAccessBlockConfiguration
             (attr_public_access_block_configuration d) of
        Inl p \<Rightarrow> (Panicked p, d, w)
      | Inr pab \<Rightarrow>
      (case expandS3AccessPointVpcConfiguration (attr_vpc_configuration d) of
        Inl p \<Rightarrow> (Panicked p, d, w)
      | Inr vpc \<Rightarrow>
      (let input =
         \<lparr>AccountId = Some accountId,
          GetAccessPointInput.Name = Some name,
          CreateAccessPointInput.Bucket = Some (attr_bucket d),
          CreateAccessPointInput.PublicAccessBlockConfiguration = pab,
          CreateAccessPointInput.VpcConfiguration = vpc\<rparr>
       in
       case issue (CallCreateAccessPoint input) (CreateAccessPoint (S3ControlConn meta) input) w of
         ((output, err), w1) \<Rightarrow>
           (case err of
              Some e \<Rightarrow>
                (ReturnErr (Errorf ''error creating S3 Control Access Point (%s): %w''
                              [ArgS name, ArgE e]), d, w1)
            | None \<Rightarrow>
           (case output of
              None \<Rightarrow>
                (ReturnErr (Errorf ''error creating S3 Control Access Point (%s): empty response''
                              [ArgS name]), d, w1)
            | Some out \<Rightarrow>
           (let accessPointArn = aws_StringValue (AccessPointArn out);
                outposts =
                  (case arn_Parse accessPointArn of
                     Inl perr \<Rightarrow> False
                   | Inr parsedARN \<Rightarrow> strings_HasPrefix (Resource parsedARN) ''outpost/'');
                d1 = (if outposts then d\<lparr>d_Id := accessPointArn\<rparr>
                      else d\<lparr>d_Id := accountId @ '':'' @ name\<rparr>);
                name1 = (if outposts then accessPointArn else name)
            in
            if attr_policy d1 \<noteq> [] then
              (let pinput =
                 \<lparr>AccountId = Some accountId,
                  GetAccessPointInput.Name = Some name1,
                  PutAccessPointPolicyInput.Policy = Some (attr_policy d1)\<rparr>
               in
               case issue (CallPutAccessPointPolicy pinput)
                      (PutAccessPointPolicy (S3ControlConn meta) pinput) w1 of
                 (perr, w2) \<Rightarrow>
                   (case perr of
                      Some e \<Rightarrow>
                        (ReturnErr (Errorf ''error putting S3 Access Point (%s) policy: %s''
                                      [ArgS (d_Id d1), ArgE e]), d1, w2)
                    | None \<Rightarrow> resourceAccessPointRead meta d1 w2))
            else resourceAccessPointRead meta d1 w1))))))"

text \<open>Update. \<^verbatim>\<open>d.HasChange("policy")\<close> compares the prior and the planned value.\<close>

definition resourceAccessPointUpdate ::
    "'r AWSClient \<Rightarrow> AccessPointData \<Rightarrow> 'r world \<Rightarrow> go_result \<times> AccessPointData \<times> 'r world"
    where
  "resourceAccessPointUpdate meta d w =
     (case AccessPointParseID (d_Id d) of
        Inl err \<Rightarrow> (ReturnErr err, d, w)
      | Inr (accountId, name) \<Rightarrow>
          if attr_policy_prior d \<noteq> attr_policy d then
            (if attr_policy d \<noteq> [] then
               (let input =
                  \<lparr>AccountId = Some accountId,
                   GetAccessPointInput.Name = Some name,
                   PutAccessPointPolicyInput.Policy = Some (attr_policy d)\<rparr>
                in
                case issue (CallPutAccessPointPolicy input)
                       (PutAccessPointPolicy (S3ControlConn meta) input) w of
                  (err, w1) \<Rightarrow>
                    (case err of
                       Some e \<Rightarrow>
                         (ReturnErr (Errorf ''error putting S3 Access Point (%s) policy: %s''
                                       [ArgS (d_Id d), ArgE e]), d, w1)
                     | None \<Rightarrow> resourceAccessPointRead meta d w1))
             else
               (let input = \<lparr>AccountId = Some accountId, GetAccessPointInput.Name = Some name\<rparr>
                in
                case issue (CallDeleteAccessPointPolicy input)
                       (DeleteAccessPointPolicy (S3ControlConn meta) input) w of
                  (err, w1) \<Rightarrow>
                    (case err of
                       Some e \<Rightarrow>
                         (ReturnErr (Errorf ''error deleting S3 Access Point (%s) policy: %s''
                                       [ArgS (d_Id d), ArgE e]), d, w1)
                     | None \<Rightarrow> resourceAccessPointRead meta d w1)))
          else resourceAccessPointRead meta d w)"

definition resourceAccessPointDelete ::
    "'r AWSClient \<Rightarrow> AccessPointData \<Rightarrow> 'r world \<Rightarrow> go_result \<times> AccessPointData \<times> 'r world"
    where
  "resourceAccessPointDelete meta d w =
     (case AccessPointParseID (d_Id d) of
        Inl err \<Rightarrow> (ReturnErr err, d, w)
      | Inr (accountId, name) \<Rightarrow>
          (let input = \<lparr>AccountId = Some accountId, GetAccessPointInput.Name = Some name\<rparr> in
           case issue (CallDeleteAccessPoint input)
                  (DeleteAccessPoint (S3ControlConn meta) input) w of
             (err, w1) \<Rightarrow>
               if ErrMessageContains err ''NoSuchAccessPoint'' [] then (ReturnNil, d, w1)
               else
                 (case err of
                    Some e \<Rightarrow>
                      (ReturnErr (Errorf ''error deleting S3 Access Point (%s): %s''
                                    [ArgS (d_Id d), ArgE e]), d, w1)
                  | None \<Rightarrow> (ReturnNil, d, w1))))"

section \<open>The configuration recorder adapter\<close>

text \<open>The SDK's constant \<^verbatim>\<open>configservice.ErrCodeNoSuchConfigurationRecorderException\<close>.\<close>

definition ErrCodeNoSuchConfigurationRecorderException :: string where
  "ErrCodeNoSuchConfigurationRecorderException = ''NoSuchConfigurationRecorderException''"

text \<open>
  Read. The translator \<^verbatim>\<open>flattenRecordingGroup\<close> is declared outside the given
  sources and is taken as a parameter. Reading a field of a nil response or of a nil
  recorder panics.
\<close>

definition resourceConfigurationRecorderRead ::
    "(RecordingGroup \<Rightarrow> go_value list) \<Rightarrow> 'r AWSClient \<Rightarrow> RecorderData \<Rightarrow> 'r world
       \<Rightarrow> go_result \<times> RecorderData \<times> 'r world" where
  "resourceConfigurationRecorderRead flattenRecordingGroup meta d w =
     (let input = \<lparr>ConfigurationRecorderNames = [Some (d_Id d)]\<rparr> in
      case issue (CallDescribeConfigurationRecorders input)
             (DescribeConfigurationRecorders (ConfigConn meta) input) w of
        ((out, err), w1) \<Rightarrow>
          (case err of
             Some e \<Rightarrow>
               if ErrMessageContains err ErrCodeNoSuchConfigurationRecorderException []
               then (ReturnNil, d\<lparr>d_Id := []\<rparr>, w1)
               else (ReturnErr (Errorf ''Getting Configuration Recorder failed: %s'' [ArgE e]),
                     d, w1)
           | None \<Rightarrow>
          (case out of
             None \<Rightarrow> (Panicked NilDereferencePanic, d, w1)
           | Some output \<Rightarrow>
          (let numberOfRecorders = length (ConfigurationRecorders output) in
           if numberOfRecorders < 1 then (ReturnNil, d\<lparr>d_Id := []\<rparr>, w1)
           else if numberOfRecorders > 1 then
             (ReturnErr (Errorf ''Expected exactly 1 Configuration Recorder, received %d: %#v''
                           [ArgD numberOfRecorders,
                            ArgRecorders (ConfigurationRecorders output)]), d, w1)
           else
             (case ConfigurationRecorders output ! 0 of
                None \<Rightarrow> (Panicked NilDereferencePanic, d, w1)
              | Some recorder \<Rightarrow>
                  (let d1 = d\<lparr>attr_name := aws_StringValue (ConfigurationRecorder.Name recorder),
                              attr_role_arn := aws_StringValue (RoleARN recorder)\<rparr>
                   in
                   case ConfigurationRecorder.RecordingGroup recorder of
                     None \<Rightarrow> (ReturnNil, d1, w1)
                   | Some g \<Rightarrow>
                       (let flattened = flattenRecordingGroup g in
                        case Set_block recording_group_schema flattened of
                          Some serr \<Rightarrow>
                            (ReturnErr (Errorf ''Failed to set recording_group: %s'' [ArgE serr]),
                             d1, w1)
                        | None \<Rightarrow>
                            (ReturnNil, d1\<lparr>attr_recording_group := flattened\<rparr>, w1))))))))"

text \<open>
  Put, which is both Create and Update. The translator \<^verbatim>\<open>expandRecordingGroup\<close> is
  declared outside the given sources and is taken as a parameter that may panic.
  \<^verbatim>\<open>d.GetOk\<close> of a list attribute is true when the list is not empty.
\<close>

definition resourceConfigurationRecorderPut ::
    "(go_value list \<Rightarrow> go_panic + RecordingGroup option) \<Rightarrow> (RecordingGroup \<Rightarrow> go_value list)
       \<Rightarrow> 'r AWSClient \<Rightarrow> RecorderData \<Rightarrow> 'r world \<Rightarrow> go_result \<times> RecorderData \<times> 'r world"
    where
  "resourceConfigurationRecorderPut expandRecordingGroup flattenRecordingGroup meta d w =
     (let name = attr_name d in
      case (if attr_recording_group d \<noteq> []
            then expandRecordingGroup (attr_recording_group d) else Inr None) of
        Inl p \<Rightarrow> (Panicked p, d, w)
      | Inr g \<Rightarrow>
          (let recorder =
             \<lparr>ConfigurationRecorder.Name = Some name,
              ConfigurationRecorder.RecordingGroup = g,
              RoleARN = Some (attr_role_arn d)\<rparr>;
               input = \<lparr>ConfigurationRecorder = Some recorder\<rparr>
           in
           case issue (CallPutConfigurationRecorder input)
                  (PutConfigurationRecorder (ConfigConn meta) input) w of
             (err, w1) \<Rightarrow>
               (case err of
                  Some e \<Rightarrow>
                    (ReturnErr (Errorf ''Creating Configuration Recorder failed: %s'' [ArgE e]),
                     d, w1)
                | None \<Rightarrow>
                    resourceConfigurationRecorderRead flattenRecordingGroup meta
                      (d\<lparr>d_Id := name\<rparr>) w1)))"

definition resourceConfigurationRecorderDelete ::
    "'r AWSClient \<Rightarrow> RecorderData \<Rightarrow> 'r world \<Rightarrow> go_result \<times> RecorderData \<times> 'r world" where
  "resourceConfigurationRecorderDelete meta d w =
     (let input = \<lparr>ConfigurationRecorderName = Some (d_Id d)\<rparr> in
      case issue (CallDeleteConfigurationRecorder input)
             (DeleteConfigurationRecorder (ConfigConn meta) input) w of
        (err, w1) \<Rightarrow>
          (case err of
             Some e \<Rightarrow>
               if \<not> ErrMessageContains err ErrCodeNoSuchConfigurationRecorderException []
               then (ReturnErr (Errorf ''Deleting Configuration Recorder failed: %s'' [ArgE e]),
                     d, w1)
               else (ReturnNil, d, w1)
           | None \<Rightarrow> (ReturnNil, d, w1)))"

section \<open>Listing the targets of a rule\<close>

text \<open>
  Modelled from the spec: \<^verbatim>\<open>ListTargetsByRulePages\<close> is generated code that is not
  among the sources. Following the spec's pagination helper, it repeatedly issues the
  listing call, hands each page to the callback together with a flag that says whether
  it is the last page (no continuation cursor in the response), stops when the callback
  returns false or no cursor remains, and otherwise copies the cursor of the response
  into the request and goes on; an error of the listing call is returned as it is.

  The callback is a Go closure: it may keep a state \<open>'c\<close> of its own. A remote service
  that always sends a cursor keeps the loop running for ever, so the loop takes fuel, and
  \<open>None\<close> is a loop that has not stopped within the fuel.
\<close>

fun ListTargetsByRulePages ::
    "nat \<Rightarrow> 'r CloudWatchEvents \<Rightarrow> ListTargetsByRuleInput
       \<Rightarrow> (ListTargetsByRuleOutput \<Rightarrow> bool \<Rightarrow> 'c \<Rightarrow> bool \<times> 'c) \<Rightarrow> 'r world \<Rightarrow> 'c
       \<Rightarrow> (go_result \<times> 'r world \<times> 'c) option" where
  "ListTargetsByRulePages 0 conn input fn w c = None"
| "ListTargetsByRulePages (Suc fuel) conn input fn w c =
     (case issue (CallListTargetsByRule input) (ListTargetsByRule conn input) w of
        ((output, err), w1) \<Rightarrow>
          (case err of
             Some e \<Rightarrow> Some (ReturnErr (Unchanged e), w1, c)
           | None \<Rightarrow>
               (case output of
                  None \<Rightarrow> Some (Panicked NilDereferencePanic, w1, c)
                | Some out \<Rightarrow>
                    (let lastPage = (aws_StringValue (ListTargetsByRuleOutput.NextToken out) = [])
                     in
                     case fn out lastPage c of
                       (continue, c1) \<Rightarrow>
                         if \<not> continue \<or> lastPage then Some (ReturnNil, w1, c1)
                         else
                           ListTargetsByRulePages fuel conn
                             (input\<lparr>ListTargetsByRuleInput.NextToken :=
                                      ListTargetsByRuleOutput.NextToken out\<rparr>) fn w1 c1))))"

definition ListAllTargetsForRulePages ::
    "nat \<Rightarrow> 'r CloudWatchEvents \<Rightarrow> string \<Rightarrow> string
       \<Rightarrow> (ListTargetsByRuleOutput \<Rightarrow> bool \<Rightarrow> 'c \<Rightarrow> bool \<times> 'c) \<Rightarrow> 'r world \<Rightarrow> 'c
       \<Rightarrow> (go_result \<times> 'r world \<times> 'c) option" where
  "ListAllTargetsForRulePages fuel conn busName ruleName fn w c =
     (let input = \<lparr>EventBusName = None, Limit = Some 100,
                   ListTargetsByRuleInput.NextToken = None, Rule = Some ruleName\<rparr>;
          input1 = (if busName \<noteq> [] then input\<lparr>EventBusName := Some busName\<rparr> else input)
      in ListTargetsByRulePages fuel conn input1 fn w c)"

section \<open>Test doubles of the remote services\<close>

definition err_NoSuchAccessPoint :: ext_error where
  "err_NoSuchAccessPoint =
     AwsError ''NoSuchAccessPoint'' ''The specified accesspoint does not exist''"

definition err_NoSuchAccessPointPolicy :: ext_error where
  "err_NoSuchAccessPointPolicy =
     AwsError ''NoSuchAccessPointPolicy'' ''The specified accesspoint policy does not exist''"

definition err_NoSuchConfigurationRecorder :: ext_error where
  "err_NoSuchConfigurationRecorder =
     AwsError ''NoSuchConfigurationRecorderException''
       ''Cannot find configuration recorder with the specified name''"

definition err_AccessDenied :: ext_error where
  "err_AccessDenied = AwsError ''AccessDenied'' ''Access Denied''"

definition my_ap_output :: GetAccessPointOutput where
  "my_ap_output =
     \<lparr>GetAccessPointOutput.Bucket = Some ''my-bucket'',
      GetAccessPointOutput.Name = Some ''my-ap'',
      NetworkOrigin = Some ''Internet'',
      GetAccessPointOutput.PublicAccessBlockConfiguration =
        Some \<lparr>BlockPublicAcls = Some True, BlockPublicPolicy = Some True,
              IgnorePublicAcls = Some True, RestrictPublicBuckets = Some True\<rparr>,
      GetAccessPointOutput.VpcConfiguration = None\<rparr>"

text \<open>
  A remote S3 Control service that holds at most one access point: its state says
  whether the access point exists and which policy it has, if any. Creating returns the
  given ARN.
\<close>

definition store_S3Control :: "string \<Rightarrow> (bool \<times> string option) S3Control" where
  "store_S3Control created =
     \<lparr>CreateAccessPoint =
        (\<lambda>i r. ((Some \<lparr>AccessPointArn = Some created\<rparr>, None), (True, None))),
      PutAccessPointPolicy =
        (\<lambda>i r. if fst r then (None, (True, PutAccessPointPolicyInput.Policy i))
               else (Some err_NoSuchAccessPoint, r)),
      DeleteAccessPointPolicy =
        (\<lambda>i r. if fst r then (None, (True, None)) else (Some err_NoSuchAccessPoint, r)),
      DeleteAccessPoint =
        (\<lambda>i r. if fst r then (None, (False, None)) else (Some err_NoSuchAccessPoint, r)),
      GetAccessPoint =
        (\<lambda>i r. if fst r
               then ((Some my_ap_output, None), r)
               else ((None, Some err_NoSuchAccessPoint), r)),
      GetAccessPointPolicy =
        (\<lambda>i r. case snd r of
                 None \<Rightarrow> ((None, Some err_NoSuchAccessPointPolicy), r)
               | Some p \<Rightarrow> ((Some \<lparr>GetAccessPointPolicyOutput.Policy = Some p\<rparr>, None), r)),
      GetAccessPointPolicyStatus =
        (\<lambda>i r. case snd r of
                 None \<Rightarrow> ((None, Some err_NoSuchAccessPointPolicy), r)
               | Some p \<Rightarrow>
                   ((Some \<lparr>PolicyStatus = Some \<lparr>IsPublic = Some False\<rparr>\<rparr>, None), r))\<rparr>"

text \<open>A remote S3 Control service whose policy status lookup is refused.\<close>

definition denied_status_S3Control :: "(bool \<times> string option) S3Control" where
  "denied_status_S3Control =
     (store_S3Control [])
       \<lparr>GetAccessPointPolicyStatus := (\<lambda>i r. ((None, Some err_AccessDenied), r))\<rparr>"

text \<open>A remote config service that holds a list of recorders; a lookup gives every
  recorder of a requested name.\<close>

definition store_ConfigService :: "ConfigurationRecorder list ConfigService" where
  "store_ConfigService =
     \<lparr>PutConfigurationRecorder =
        (\<lambda>i r. case ConfigurationRecorder i of
                 None \<Rightarrow> (Some (OtherError ''missing recorder''), r)
               | Some c \<Rightarrow>
                   (None, c # filter (\<lambda>x. ConfigurationRecorder.Name x
                                            \<noteq> ConfigurationRecorder.Name c) r)),
      DescribeConfigurationRecorders =
        (\<lambda>i r. let found =
                   filter (\<lambda>x. ConfigurationRecorder.Name x
                                  \<in> set (ConfigurationRecorderNames i)) r
               in if found = [] then ((None, Some err_NoSuchConfigurationRecorder), r)
                  else ((Some \<lparr>ConfigurationRecorders = map Some found\<rparr>, None), r)),
      DeleteConfigurationRecorder =
        (\<lambda>i r. if list_ex (\<lambda>x. ConfigurationRecorder.Name x = ConfigurationRecorderName i) r
               then (None, filter (\<lambda>x. ConfigurationRecorder.Name x
                                          \<noteq> ConfigurationRecorderName i) r)
               else (Some err_NoSuchConfigurationRecorder, r))\<rparr>"

text \<open>A remote config service whose lookup succeeds with no recorder at all.\<close>

definition empty_list_ConfigService :: "ConfigurationRecorder list ConfigService" where
  "empty_list_ConfigService =
     store_ConfigService
       \<lparr>DescribeConfigurationRecorders :=
          (\<lambda>i r. ((Some \<lparr>ConfigurationRecorders = []\<rparr>, None), r))\<rparr>"

text \<open>Connections that are not used refuse every call.\<close>

definition unused_S3Control :: "'r S3Control" where
  "unused_S3Control =
     \<lparr>CreateAccessPoint = (\<lambda>i r. ((None, Some err_AccessDenied), r)),
      PutAccessPointPolicy = (\<lambda>i r. (Some err_AccessDenied, r)),
      DeleteAccessPointPolicy = (\<lambda>i r. (Some err_AccessDenied, r)),
      DeleteAccessPoint = (\<lambda>i r. (Some err_AccessDenied, r)),
      GetAccessPoint = (\<lambda>i r. ((None, Some err_AccessDenied), r)),
      GetAccessPointPolicy = (\<lambda>i r. ((None, Some err_AccessDenied), r)),
      GetAccessPointPolicyStatus = (\<lambda>i r. ((None, Some err_AccessDenied), r))\<rparr>"

definition unused_ConfigService :: "'r ConfigService" where
  "unused_ConfigService =
     \<lparr>PutConfigurationRecorder = (\<lambda>i r. (Some err_AccessDenied, r)),
      DescribeConfigurationRecorders = (\<lambda>i r. ((None, Some err_AccessDenied), r)),
      DeleteConfigurationRecorder = (\<lambda>i r. (Some err_AccessDenied, r))\<rparr>"

definition s3_client :: "(bool \<times> string option) S3Control \<Rightarrow> (bool \<times> string option) AWSClient"
    where
  "s3_client conn =
     \<lparr>AccountID = ''123456789012'', Partition = ''aws'', Region = ''us-west-2'',
      RegionalHostname = (\<lambda>p. p @ ''.us-west-2.amazonaws.com''),
      S3ControlConn = conn, ConfigConn = unused_ConfigService\<rparr>"

definition config_client ::
    "ConfigurationRecorder list ConfigService \<Rightarrow> ConfigurationRecorder list AWSClient" where
  "config_client conn =
     \<lparr>AccountID = ''123456789012'', Partition = ''aws'', Region = ''us-west-2'',
      RegionalHostname = (\<lambda>p. p @ ''.us-west-2.amazonaws.com''),
      S3ControlConn = unused_S3Control, ConfigConn = conn\<rparr>"

text \<open>An access point resource as it is stored after a creation without a policy, and a
  recorder resource.\<close>

definition my_ap :: AccessPointData where
  "my_ap =
     \<lparr>d_Id = ''123456789012:my-ap'', IsNewResource = False, attr_name = ''my-ap'',
      attr_account_id = ''123456789012'', attr_arn = [], attr_bucket = ''my-bucket'',
      attr_domain_name = [], attr_has_public_access_policy = False,
      attr_network_origin = [], attr_policy = [], attr_policy_prior = [],
      attr_public_access_block_configuration = [], attr_vpc_configuration = []\<rparr>"

definition my_recorder :: RecorderData where
  "my_recorder =
     \<lparr>d_Id = ''default'', IsNewResource = False, attr_name = ''default'',
      attr_role_arn = ''arn:aws:iam::123456789012:role/config'',
      attr_recording_group = []\<rparr>"

definition remote_recorder :: ConfigurationRecorder where
  "remote_recorder =
     \<lparr>ConfigurationRecorder.Name = Some ''default'',
      ConfigurationRecorder.RecordingGroup = None,
      RoleARN = Some ''arn:aws:iam::123456789012:role/config''\<rparr>"

definition world0 :: "'r \<Rightarrow> 'r world" where
  "world0 r = \<lparr>remote = r, calls = []\<rparr>"

text \<open>Stand-ins for the two recording group translators, which are not among the
  sources.\<close>

definition test_flattenRecordingGroup :: "RecordingGroup \<Rightarrow> go_value list" where
  "test_flattenRecordingGroup g =
     [GoMap (fmupd ''all_supported'' (GoBool (aws_BoolValue (AllSupported g))) fmempty)]"

definition test_expandRecordingGroup :: "go_value list \<Rightarrow> go_panic + RecordingGroup option"
    where
  "test_expandRecordingGroup vs =
     Inr (Some \<lparr>AllSupported = Some True, IncludeGlobalResourceTypes = None,
                ResourceTypes = []\<rparr>)"

text \<open>Remote S3 Control services that have the policy but report no policy status, and
  that have the policy status but report no policy.\<close>

definition policy_without_status_S3Control :: "(bool \<times> string option) S3Control" where
  "policy_without_status_S3Control =
     (store_S3Control [])
       \<lparr>GetAccessPointPolicyStatus :=
          (\<lambda>i r. ((None, Some err_NoSuchAccessPointPolicy), r))\<rparr>"

definition status_without_policy_S3Control :: "(bool \<times> string option) S3Control" where
  "status_without_policy_S3Control =
     (store_S3Control [])
       \<lparr>GetAccessPointPolicy := (\<lambda>i r. ((None, Some err_NoSuchAccessPointPolicy), r))\<rparr>"

definition outposts_arn :: string where
  "outposts_arn = ''arn:aws:s3-outposts:us-west-2:123456789012:outpost/op-1/accesspoint/my-ap''"

section \<open>Facts about the library functions\<close>

lemma fmap_eqI_dom:
  assumes "fmdom m = fmdom n"
    and "\<And>k. k |\<in>| fmdom n \<Longrightarrow> fmlookup m k = fmlookup n k"
  shows "m = n"
proof (rule fmap_ext)
  fix x
  show "fmlookup m x = fmlookup n x"
  proof (cases "x |\<in>| fmdom n")
    case True
    then show ?thesis by (rule assms(2))
  next
    case False
    then have "fmlookup n x = None" by (rule fmdom_notD)
    moreover from False assms(1) have "x |\<notin>| fmdom m" by simp
    then have "fmlookup m x = None" by (rule fmdom_notD)
    ultimately show ?thesis by simp
  qed
qed

lemma is_string_obtain:
  assumes "is_string v"
  obtains s where "v = Some (GoString s)"
  using assms by (cases v rule: is_string.cases) simp_all

lemma is_bool_obtain:
  assumes "is_bool v"
  obtains b where "v = Some (GoBool b)"
  using assms by (cases v rule: is_bool.cases) simp_all

lemma split_at_first:
  assumes "sep \<in> set s"
  shows "s = takeWhile (\<lambda>c. c \<noteq> sep) s @ sep # tl (dropWhile (\<lambda>c. c \<noteq> sep) s)"
proof -
  from assms have "dropWhile (\<lambda>c. c \<noteq> sep) s \<noteq> []" by simp
  then obtain y ys where d: "dropWhile (\<lambda>c. c \<noteq> sep) s = y # ys"
    by (cases "dropWhile (\<lambda>c. c \<noteq> sep) s") auto
  then have "y = sep" using hd_dropWhile [of "\<lambda>c. c \<noteq> sep" s] by auto
  with d have "dropWhile (\<lambda>c. c \<noteq> sep) s = sep # tl (dropWhile (\<lambda>c. c \<noteq> sep) s)"
    by simp
  then show ?thesis
    using takeWhile_dropWhile_id [of "\<lambda>c. c \<noteq> sep" s] by simp
qed

lemma SplitN_2_found:
  assumes "sep \<notin> set a"
  shows "strings_SplitN (a @ sep # b) sep 2 = [a, b]"
proof -
  have t: "takeWhile (\<lambda>c. c \<noteq> sep) (a @ sep # b) = a"
    using assms by (induction a) auto
  have d: "dropWhile (\<lambda>c. c \<noteq> sep) (a @ sep # b) = sep # b"
    using assms by (induction a) auto
  show ?thesis
    by (simp add: numeral_2_eq_2 t d)
qed

lemma SplitN_2_cases:
  "strings_SplitN s sep 2 =
     (if sep \<in> set s
      then [takeWhile (\<lambda>c. c \<noteq> sep) s, tl (dropWhile (\<lambda>c. c \<noteq> sep) s)]
      else [s])"
  by (simp add: numeral_2_eq_2)

section \<open>Round trip of the shape translators\<close>

lemma vpc_flatten_expand:
  assumes "valid_vpc_configuration x"
  shows "\<exists>y. expandS3AccessPointVpcConfiguration x = Inr y
           \<and> flattenS3AccessPointVpcConfiguration y = x"
proof (cases x rule: valid_vpc_configuration.cases)
  case 1
  then show ?thesis
    by (simp add: expandS3AccessPointVpcConfiguration_def
        flattenS3AccessPointVpcConfiguration_def)
next
  case (2 m)
  with assms have d: "fmdom m = {|''vpc_id''|}" and "is_string (fmlookup m ''vpc_id'')"
    by simp_all
  then obtain s where l: "fmlookup m ''vpc_id'' = Some (GoString s)"
    by (auto elim: is_string_obtain)
  have e: "expandS3AccessPointVpcConfiguration x = Inr (Some \<lparr>VpcId = Some s\<rparr>)"
    using 2 l
    by (simp add: expandS3AccessPointVpcConfiguration_def map_index_def assert_map_def
        assert_string_def)
  have "fmupd ''vpc_id'' (GoString s) fmempty = m"
    by (rule fmap_eqI_dom [symmetric]) (use d l in auto)
  then have "flattenS3AccessPointVpcConfiguration (Some \<lparr>VpcId = Some s\<rparr>) = x"
    using 2 by (simp add: flattenS3AccessPointVpcConfiguration_def aws_StringValue_def)
  with e show ?thesis by simp
qed (use assms in simp_all)

lemma vpc_expand_flatten:
  assumes "expandS3AccessPointVpcConfiguration x = Inr (Some c)"
  shows "expandS3AccessPointVpcConfiguration (flattenS3AccessPointVpcConfiguration (Some c))
           = Inr (Some c)"
proof -
  from assms obtain s where "c = \<lparr>VpcId = Some s\<rparr>"
    by (auto simp: expandS3AccessPointVpcConfiguration_def
        split: list.splits if_splits sum.splits)
  then show ?thesis
    by (simp add: expandS3AccessPointVpcConfiguration_def
        flattenS3AccessPointVpcConfiguration_def map_index_def assert_map_def
        assert_string_def aws_StringValue_def)
qed

lemma pab_flatten_expand:
  assumes "valid_public_access_block_configuration x"
  shows "\<exists>y. expandS3AccessPointPublicAccessBlockConfiguration x = Inr y
           \<and> flattenS3AccessPointPublicAccessBlockConfiguration y = x"
proof (cases x rule: valid_public_access_block_configuration.cases)
  case 1
  then show ?thesis
    by (simp add: expandS3AccessPointPublicAccessBlockConfiguration_def
        flattenS3AccessPointPublicAccessBlockConfiguration_def)
next
  case (2 m)
  with assms have d: "fmdom m = {|''block_public_acls'', ''block_public_policy'',
      ''ignore_public_acls'', ''restrict_public_buckets''|}"
    and "is_bool (fmlookup m ''block_public_acls'')"
    and "is_bool (fmlookup m ''block_public_policy'')"
    and "is_bool (fmlookup m ''ignore_public_acls'')"
    and "is_bool (fmlookup m ''restrict_public_buckets'')"
    by simp_all
  then obtain b1 b2 b3 b4 where
    l1: "fmlookup m ''block_public_acls'' = Some (GoBool b1)" and
    l2: "fmlookup m ''block_public_policy'' = Some (GoBool b2)" and
    l3: "fmlookup m ''ignore_public_acls'' = Some (GoBool b3)" and
    l4: "fmlookup m ''restrict_public_buckets'' = Some (GoBool b4)"
    by (auto elim!: is_bool_obtain)
  let ?c = "\<lparr>BlockPublicAcls = Some b1, BlockPublicPolicy = Some b2,
             IgnorePublicAcls = Some b3, RestrictPublicBuckets = Some b4\<rparr>"
  have e: "expandS3AccessPointPublicAccessBlockConfiguration x = Inr (Some ?c)"
    using 2 l1 l2 l3 l4
    by (simp add: expandS3AccessPointPublicAccessBlockConfiguration_def map_index_def
        assert_map_def assert_bool_def)
  have "m = fmupd ''block_public_acls'' (GoBool b1)
             (fmupd ''block_public_policy'' (GoBool b2)
             (fmupd ''ignore_public_acls'' (GoBool b3)
             (fmupd ''restrict_public_buckets'' (GoBool b4) fmempty)))"
    by (rule fmap_eqI_dom) (use d l1 l2 l3 l4 in auto)
  then have "flattenS3AccessPointPublicAccessBlockConfiguration (Some ?c) = x"
    using 2 by (simp add: flattenS3AccessPointPublicAccessBlockConfiguration_def
        aws_BoolValue_def)
  with e show ?thesis by blast
qed (use assms in simp_all)

lemma pab_expand_flatten:
  assumes "expandS3AccessPointPublicAccessBlockConfiguration x = Inr (Some c)"
  shows "expandS3AccessPointPublicAccessBlockConfiguration
           (flattenS3AccessPointPublicAccessBlockConfiguration (Some c)) = Inr (Some c)"
proof -
  from assms obtain b1 b2 b3 b4 where
    "c = \<lparr>BlockPublicAcls = Some b1, BlockPublicPolicy = Some b2,
          IgnorePublicAcls = Some b3, RestrictPublicBuckets = Some b4\<rparr>"
    by (auto simp: expandS3AccessPointPublicAccessBlockConfiguration_def
        split: list.splits if_splits sum.splits)
  then show ?thesis
    by (simp add: expandS3AccessPointPublicAccessBlockConfiguration_def
        flattenS3AccessPointPublicAccessBlockConfiguration_def map_index_def assert_map_def
        assert_bool_def aws_BoolValue_def)
qed

text \<open>
  Claim C1. Every configuration block list that is structurally valid for the schema is
  expanded without a panic and flattened back to itself, and every non-nil remote struct
  that the expander produces is flattened and expanded back to itself; this holds for the
  VPC configuration pair and for the public access block configuration pair.
\<close>

theorem shape_translators_round_trip:
  "(\<forall>x. valid_vpc_configuration x \<longrightarrow>
      (\<exists>y. expandS3AccessPointVpcConfiguration x = Inr y
         \<and> flattenS3AccessPointVpcConfiguration y = x))
   \<and> (\<forall>x c. expandS3AccessPointVpcConfiguration x = Inr (Some c) \<longrightarrow>
        expandS3AccessPointVpcConfiguration
          (flattenS3AccessPointVpcConfiguration (Some c)) = Inr (Some c))
   \<and> (\<forall>x. valid_public_access_block_configuration x \<longrightarrow>
        (\<exists>y. expandS3AccessPointPublicAccessBlockConfiguration x = Inr y
           \<and> flattenS3AccessPointPublicAccessBlockConfiguration y = x))
   \<and> (\<forall>x c. expandS3AccessPointPublicAccessBlockConfiguration x = Inr (Some c) \<longrightarrow>
        expandS3AccessPointPublicAccessBlockConfiguration
          (flattenS3AccessPointPublicAccessBlockConfiguration (Some c)) = Inr (Some c))"
  using vpc_flatten_expand vpc_expand_flatten pab_flatten_expand pab_expand_flatten
  by blast

theorem shape_translators_round_trip_witness:
  "valid_vpc_configuration [GoMap (fmupd ''vpc_id'' (GoString ''vpc-0a1b'') fmempty)]
   \<and> expandS3AccessPointVpcConfiguration
        [GoMap (fmupd ''vpc_id'' (GoString ''vpc-0a1b'') fmempty)]
       = Inr (Some \<lparr>VpcId = Some ''vpc-0a1b''\<rparr>)
   \<and> flattenS3AccessPointVpcConfiguration (Some \<lparr>VpcId = Some ''vpc-0a1b''\<rparr>)
       = [GoMap (fmupd ''vpc_id'' (GoString ''vpc-0a1b'') fmempty)]
   \<and> expandS3AccessPointVpcConfiguration
        (flattenS3AccessPointVpcConfiguration (Some \<lparr>VpcId = Some ''vpc-0a1b''\<rparr>))
       = Inr (Some \<lparr>VpcId = Some ''vpc-0a1b''\<rparr>)
   \<and> valid_public_access_block_configuration
        [GoMap (fmupd ''block_public_acls'' (GoBool True)
               (fmupd ''block_public_policy'' (GoBool False)
               (fmupd ''ignore_public_acls'' (GoBool True)
               (fmupd ''restrict_public_buckets'' (GoBool False) fmempty))))]
   \<and> expandS3AccessPointPublicAccessBlockConfiguration
        [GoMap (fmupd ''block_public_acls'' (GoBool True)
               (fmupd ''block_public_policy'' (GoBool False)
               (fmupd ''ignore_public_acls'' (GoBool True)
               (fmupd ''restrict_public_buckets'' (GoBool False) fmempty))))]
       = Inr (Some \<lparr>BlockPublicAcls = Some True, BlockPublicPolicy = Some False,
                     IgnorePublicAcls = Some True, RestrictPublicBuckets = Some False\<rparr>)
   \<and> expandS3AccessPointPublicAccessBlockConfiguration
        (flattenS3AccessPointPublicAccessBlockConfiguration
           (Some \<lparr>BlockPublicAcls = Some True, BlockPublicPolicy = Some False,
                  IgnorePublicAcls = Some True, RestrictPublicBuckets = Some False\<rparr>))
       = Inr (Some \<lparr>BlockPublicAcls = Some True, BlockPublicPolicy = Some False,
                     IgnorePublicAcls = Some True, RestrictPublicBuckets = Some False\<rparr>)"
proof -
  let ?x = "[GoMap (fmupd ''vpc_id'' (GoString ''vpc-0a1b'') fmempty)]"
  let ?c = "\<lparr>VpcId = Some ''vpc-0a1b''\<rparr>"
  let ?p = "[GoMap (fmupd ''block_public_acls'' (GoBool True)
               (fmupd ''block_public_policy'' (GoBool False)
               (fmupd ''ignore_public_acls'' (GoBool True)
               (fmupd ''restrict_public_buckets'' (GoBool False) fmempty))))]"
  let ?q = "\<lparr>BlockPublicAcls = Some True, BlockPublicPolicy = Some False,
                     IgnorePublicAcls = Some True, RestrictPublicBuckets = Some False\<rparr>"
  have v: "valid_vpc_configuration ?x" by simp
  have e: "expandS3AccessPointVpcConfiguration ?x = Inr (Some ?c)"
    by (simp add: expandS3AccessPointVpcConfiguration_def map_index_def assert_map_def
        assert_string_def)
  have w: "valid_public_access_block_configuration ?p" by auto
  have f: "expandS3AccessPointPublicAccessBlockConfiguration ?p = Inr (Some ?q)"
    by (simp add: expandS3AccessPointPublicAccessBlockConfiguration_def map_index_def
        assert_map_def assert_bool_def)
  from shape_translators_round_trip v e w f show ?thesis
    by (auto simp: flattenS3AccessPointVpcConfiguration_def aws_StringValue_def)
qed

section \<open>Parsing the identifier\<close>

lemma AccessPointParseID_arn:
  assumes "arn_Parse ident = Inr a"
  shows "AccessPointParseID ident = Inr (ARN.AccountID a, ident)"
  using assms by (simp add: AccessPointParseID_def)

lemma AccessPointParseID_split:
  assumes "arn_Parse ident = Inl e" and "ident = acct @ CHR '':'' # nm"
    and "CHR '':'' \<notin> set acct" and "acct \<noteq> []" and "nm \<noteq> []"
  shows "AccessPointParseID ident = Inr (acct, nm)"
  using assms by (simp add: AccessPointParseID_def SplitN_2_found)

lemma AccessPointParseID_neither:
  assumes "arn_Parse ident = Inl e"
    and "\<not> (\<exists>acct nm. ident = acct @ CHR '':'' # nm \<and> CHR '':'' \<notin> set acct
              \<and> acct \<noteq> [] \<and> nm \<noteq> [])"
  shows "AccessPointParseID ident =
           Inl (Errorf ''unexpected format of ID (%s), expected ACCOUNT_ID:NAME'' [ArgS ident])"
proof (cases "CHR '':'' \<in> set ident")
  case False
  with assms(1) show ?thesis
    by (simp add: AccessPointParseID_def SplitN_2_cases)
next
  case True
  let ?a = "takeWhile (\<lambda>c. c \<noteq> CHR '':'') ident"
  let ?n = "tl (dropWhile (\<lambda>c. c \<noteq> CHR '':'') ident)"
  have "ident = ?a @ CHR '':'' # ?n" using True by (rule split_at_first)
  moreover have "CHR '':'' \<notin> set ?a" by (auto dest: set_takeWhileD)
  ultimately have "?a = [] \<or> ?n = []" using assms(2) by blast
  with assms(1) True show ?thesis
    by (auto simp: AccessPointParseID_def SplitN_2_cases)
qed

text \<open>
  Claim C2. \<^verbatim>\<open>AccessPointParseID\<close> first tries the ARN parse and, when that succeeds,
  returns the account id of the ARN and the whole input as the name; otherwise it splits
  the input at its first colon and returns the two parts when both are non-empty; every
  other input, such as \<^verbatim>\<open>invalid\<close>, gives the error that names the expected
  \<^verbatim>\<open>ACCOUNT_ID:NAME\<close> format. Parsing \<^verbatim>\<open>123456789012:my-name\<close> yields the account
  \<^verbatim>\<open>123456789012\<close> and the name \<^verbatim>\<open>my-name\<close>.
\<close>

theorem AccessPointParseID_correct:
  "(\<forall>ident a. arn_Parse ident = Inr a \<longrightarrow>
      AccessPointParseID ident = Inr (ARN.AccountID a, ident))
   \<and> (\<forall>ident e acct nm.
        arn_Parse ident = Inl e \<and> ident = acct @ CHR '':'' # nm \<and> CHR '':'' \<notin> set acct
          \<and> acct \<noteq> [] \<and> nm \<noteq> [] \<longrightarrow>
        AccessPointParseID ident = Inr (acct, nm))
   \<and> (\<forall>ident e.
        arn_Parse ident = Inl e
          \<and> \<not> (\<exists>acct nm. ident = acct @ CHR '':'' # nm \<and> CHR '':'' \<notin> set acct
                  \<and> acct \<noteq> [] \<and> nm \<noteq> []) \<longrightarrow>
        AccessPointParseID ident =
          Inl (Errorf ''unexpected format of ID (%s), expected ACCOUNT_ID:NAME''
                 [ArgS ident]))
   \<and> AccessPointParseID ''123456789012:my-name'' = Inr (''123456789012'', ''my-name'')
   \<and> AccessPointParseID ''invalid'' =
       Inl (Errorf ''unexpected format of ID (%s), expected ACCOUNT_ID:NAME''
              [ArgS ''invalid''])"
proof (intro conjI allI impI)
  fix ident a
  assume "arn_Parse ident = Inr a"
  then show "AccessPointParseID ident = Inr (ARN.AccountID a, ident)"
    by (rule AccessPointParseID_arn)
next
  fix ident e acct nm
  assume "arn_Parse ident = Inl e \<and> ident = acct @ CHR '':'' # nm \<and> CHR '':'' \<notin> set acct
          \<and> acct \<noteq> [] \<and> nm \<noteq> []"
  then show "AccessPointParseID ident = Inr (acct, nm)"
    using AccessPointParseID_split by blast
next
  fix ident e
  assume "arn_Parse ident = Inl e
          \<and> \<not> (\<exists>acct nm. ident = acct @ CHR '':'' # nm \<and> CHR '':'' \<notin> set acct
                  \<and> acct \<noteq> [] \<and> nm \<noteq> [])"
  then show "AccessPointParseID ident =
          Inl (Errorf ''unexpected format of ID (%s), expected ACCOUNT_ID:NAME''
                 [ArgS ident])"
    using AccessPointParseID_neither by blast
next
  show "AccessPointParseID ''123456789012:my-name'' = Inr (''123456789012'', ''my-name'')"
    by (simp add: AccessPointParseID_def arn_Parse_def strings_HasPrefix_def SplitN_2_cases)
next
  show "AccessPointParseID ''invalid'' =
       Inl (Errorf ''unexpected format of ID (%s), expected ACCOUNT_ID:NAME''
              [ArgS ''invalid''])"
    by (simp add: AccessPointParseID_def arn_Parse_def strings_HasPrefix_def SplitN_2_cases)
qed

lemma arn_Parse_outposts_example:
  "arn_Parse ''arn:aws:s3-outposts:us-west-2:123456789012:outpost/op-1/accesspoint/ap''
     = Inr \<lparr>ARN.Partition = ''aws'', Service = ''s3-outposts'', ARN.Region = ''us-west-2'',
            ARN.AccountID = ''123456789012'', Resource = ''outpost/op-1/accesspoint/ap''\<rparr>"
  by (simp add: arn_Parse_def strings_HasPrefix_def eval_nat_numeral)

lemma arn_Parse_no_prefix_examples:
  "arn_Parse ''acct:bucket:ap'' = Inl (OtherError ''arn: invalid prefix'')"
  "arn_Parse '':ap'' = Inl (OtherError ''arn: invalid prefix'')"
  "arn_Parse ''arn:aws:s3'' = Inl (OtherError ''arn: not enough sections'')"
  by (simp_all add: arn_Parse_def strings_HasPrefix_def eval_nat_numeral)

theorem AccessPointParseID_correct_witness:
  "AccessPointParseID ''arn:aws:s3-outposts:us-west-2:123456789012:outpost/op-1/accesspoint/ap''
     = Inr (''123456789012'',
            ''arn:aws:s3-outposts:us-west-2:123456789012:outpost/op-1/accesspoint/ap'')
   \<and> AccessPointParseID ''acct:bucket:ap'' = Inr (''acct'', ''bucket:ap'')
   \<and> AccessPointParseID '':ap'' =
       Inl (Errorf ''unexpected format of ID (%s), expected ACCOUNT_ID:NAME'' [ArgS '':ap''])
   \<and> AccessPointParseID ''arn:aws:s3'' = Inr (''arn'', ''aws:s3'')"
proof -
  note c = AccessPointParseID_correct
  have 1: "AccessPointParseID
             ''arn:aws:s3-outposts:us-west-2:123456789012:outpost/op-1/accesspoint/ap''
     = Inr (''123456789012'',
            ''arn:aws:s3-outposts:us-west-2:123456789012:outpost/op-1/accesspoint/ap'')"
    using c arn_Parse_outposts_example by simp
  have "arn_Parse ''acct:bucket:ap'' = Inl (OtherError ''arn: invalid prefix'')
        \<and> ''acct:bucket:ap'' = ''acct'' @ CHR '':'' # ''bucket:ap''
        \<and> CHR '':'' \<notin> set ''acct'' \<and> ''acct'' \<noteq> [] \<and> ''bucket:ap'' \<noteq> []"
    by (simp add: arn_Parse_no_prefix_examples)
  with c have 2: "AccessPointParseID ''acct:bucket:ap'' = Inr (''acct'', ''bucket:ap'')"
    by blast
  have "acct = []" if "'':ap'' = acct @ CHR '':'' # nm" and "CHR '':'' \<notin> set acct"
    for acct nm
    using that by (cases acct) auto
  then have "\<not> (\<exists>acct nm. '':ap'' = acct @ CHR '':'' # nm \<and> CHR '':'' \<notin> set acct
              \<and> acct \<noteq> [] \<and> nm \<noteq> [])"
    by blast
  with c arn_Parse_no_prefix_examples(2)
  have 3: "AccessPointParseID '':ap'' =
       Inl (Errorf ''unexpected format of ID (%s), expected ACCOUNT_ID:NAME'' [ArgS '':ap''])"
    by blast
  have "arn_Parse ''arn:aws:s3'' = Inl (OtherError ''arn: not enough sections'')
        \<and> ''arn:aws:s3'' = ''arn'' @ CHR '':'' # ''aws:s3''
        \<and> CHR '':'' \<notin> set ''arn'' \<and> ''arn'' \<noteq> [] \<and> ''aws:s3'' \<noteq> []"
    by (simp add: arn_Parse_no_prefix_examples)
  with c have 4: "AccessPointParseID ''arn:aws:s3'' = Inr (''arn'', ''aws:s3'')"
    by blast
  from 1 2 3 4 show ?thesis by simp
qed


section \<open>Read when the remote object is absent\<close>

lemma issue_eq:
  assumes "handler (remote w) = (res, r1)"
  shows "issue c handler w = (res, \<lparr>remote = r1, calls = calls w @ [c]\<rparr>)"
  using assms by (simp add: issue_def)

lemma access_point_read_absent_not_new:
  assumes "AccessPointParseID (d_Id d) = Inr (accountId, name)"
    and "GetAccessPoint (S3ControlConn meta)
           \<lparr>AccountId = Some accountId, GetAccessPointInput.Name = Some name\<rparr> (remote w)
         = ((output, Some (AwsError errCodeNoSuchAccessPoint msg)), r1)"
    and "\<not> IsNewResource d"
  shows "resourceAccessPointRead meta d w =
           (ReturnNil, d\<lparr>d_Id := []\<rparr>,
            \<lparr>remote = r1,
             calls = calls w @ [CallGetAccessPoint
               \<lparr>AccountId = Some accountId, GetAccessPointInput.Name = Some name\<rparr>]\<rparr>)"
  using assms
  by (simp add: resourceAccessPointRead_def issue_def ErrCodeEquals_def)

lemma access_point_read_absent_new:
  assumes "AccessPointParseID (d_Id d) = Inr (accountId, name)"
    and "GetAccessPoint (S3ControlConn meta)
           \<lparr>AccountId = Some accountId, GetAccessPointInput.Name = Some name\<rparr> (remote w)
         = ((output, Some (AwsError errCodeNoSuchAccessPoint msg)), r1)"
    and "IsNewResource d"
  shows "resourceAccessPointRead meta d w =
           (ReturnErr (Errorf ''error reading S3 Access Point (%s): %w''
                         [ArgS (d_Id d), ArgE (AwsError errCodeNoSuchAccessPoint msg)]), d,
            \<lparr>remote = r1,
             calls = calls w @ [CallGetAccessPoint
               \<lparr>AccountId = Some accountId, GetAccessPointInput.Name = Some name\<rparr>]\<rparr>)"
  using assms
  by (simp add: resourceAccessPointRead_def issue_def)

lemma recorder_read_absent_exception:
  assumes "DescribeConfigurationRecorders (ConfigConn meta)
             \<lparr>ConfigurationRecorderNames = [Some (d_Id d)]\<rparr> (remote w)
           = ((out, Some (AwsError ErrCodeNoSuchConfigurationRecorderException msg)), r1)"
  shows "resourceConfigurationRecorderRead flatten meta d w =
           (ReturnNil, d\<lparr>d_Id := []\<rparr>,
            \<lparr>remote = r1,
             calls = calls w @ [CallDescribeConfigurationRecorders
               \<lparr>ConfigurationRecorderNames = [Some (d_Id d)]\<rparr>]\<rparr>)"
  using assms
  by (simp add: resourceConfigurationRecorderRead_def issue_def ErrMessageContains_def)

lemma recorder_read_absent_empty:
  assumes "DescribeConfigurationRecorders (ConfigConn meta)
             \<lparr>ConfigurationRecorderNames = [Some (d_Id d)]\<rparr> (remote w)
           = ((Some output, None), r1)"
    and "ConfigurationRecorders output = []"
  shows "resourceConfigurationRecorderRead flatten meta d w =
           (ReturnNil, d\<lparr>d_Id := []\<rparr>,
            \<lparr>remote = r1,
             calls = calls w @ [CallDescribeConfigurationRecorders
               \<lparr>ConfigurationRecorderNames = [Some (d_Id d)]\<rparr>]\<rparr>)"
  using assms
  by (simp add: resourceConfigurationRecorderRead_def issue_def)

lemma parse_my_ap: "AccessPointParseID ''123456789012:my-ap'' = Inr (''123456789012'', ''my-ap'')"
  by (simp add: AccessPointParseID_def arn_Parse_def strings_HasPrefix_def SplitN_2_cases)

text \<open>
  Claim C3, as stated: every Read whose lookup reports the object absent returns without
  error and clears the identifier. The access point Read of a new resource does not: on
  \<^verbatim>\<open>NoSuchAccessPoint\<close> it returns an error and keeps the identifier.
\<close>

theorem read_absent_new_resource_counterexample:
  "resourceAccessPointRead (s3_client (store_S3Control [])) (my_ap\<lparr>IsNewResource := True\<rparr>)
     (world0 (False, None))
   = (ReturnErr (Errorf ''error reading S3 Access Point (%s): %w''
                   [ArgS ''123456789012:my-ap'', ArgE err_NoSuchAccessPoint]),
      my_ap\<lparr>IsNewResource := True\<rparr>,
      \<lparr>remote = (False, None),
       calls = [CallGetAccessPoint \<lparr>AccountId = Some ''123456789012'',
                                   GetAccessPointInput.Name = Some ''my-ap''\<rparr>]\<rparr>)"
  by (simp add: resourceAccessPointRead_def my_ap_def parse_my_ap issue_def world0_def
      s3_client_def store_S3Control_def ErrCodeEquals_def err_NoSuchAccessPoint_def
      errCodeNoSuchAccessPoint_def)

text \<open>
  Claim C3, amended: a configuration recorder Read whose lookup reports
  \<^verbatim>\<open>NoSuchConfigurationRecorderException\<close> or succeeds with an empty recorder list,
  and an access point Read of a resource that is not new whose lookup reports
  \<^verbatim>\<open>NoSuchAccessPoint\<close>, return nil and set the stored identifier to the empty string.
\<close>

theorem read_absent_clears_identifier:
  "(\<forall>flatten meta d w out msg r1.
      DescribeConfigurationRecorders (ConfigConn meta)
        \<lparr>ConfigurationRecorderNames = [Some (d_Id d)]\<rparr> (remote w)
      = ((out, Some (AwsError ErrCodeNoSuchConfigurationRecorderException msg)), r1) \<longrightarrow>
      resourceConfigurationRecorderRead flatten meta d (w :: 'r world) =
        (ReturnNil, d\<lparr>d_Id := []\<rparr>,
         \<lparr>remote = r1,
          calls = calls w @ [CallDescribeConfigurationRecorders
            \<lparr>ConfigurationRecorderNames = [Some (d_Id d)]\<rparr>]\<rparr>))
   \<and> (\<forall>flatten meta d w output r1.
        DescribeConfigurationRecorders (ConfigConn meta)
          \<lparr>ConfigurationRecorderNames = [Some (d_Id d)]\<rparr> (remote w)
        = ((Some output, None), r1) \<and> ConfigurationRecorders output = [] \<longrightarrow>
        resourceConfigurationRecorderRead flatten meta d (w :: 'r world) =
          (ReturnNil, d\<lparr>d_Id := []\<rparr>,
           \<lparr>remote = r1,
            calls = calls w @ [CallDescribeConfigurationRecorders
              \<lparr>ConfigurationRecorderNames = [Some (d_Id d)]\<rparr>]\<rparr>))
   \<and> (\<forall>meta d w accountId name output msg r1.
        AccessPointParseID (d_Id d) = Inr (accountId, name)
        \<and> GetAccessPoint (S3ControlConn meta)
            \<lparr>AccountId = Some accountId, GetAccessPointInput.Name = Some name\<rparr> (remote w)
          = ((output, Some (AwsError errCodeNoSuchAccessPoint msg)), r1)
        \<and> \<not> IsNewResource d \<longrightarrow>
        resourceAccessPointRead meta d (w :: 'r world) =
          (ReturnNil, d\<lparr>d_Id := []\<rparr>,
           \<lparr>remote = r1,
            calls = calls w @ [CallGetAccessPoint
              \<lparr>AccountId = Some accountId, GetAccessPointInput.Name = Some name\<rparr>]\<rparr>))"
  by (intro conjI allI impI; (elim conjE)?;
      (rule recorder_read_absent_exception recorder_read_absent_empty
         access_point_read_absent_not_new; assumption))


theorem read_absent_clears_identifier_witness:
  "resourceConfigurationRecorderRead test_flattenRecordingGroup
     (config_client store_ConfigService) my_recorder (world0 [])
   = (ReturnNil, my_recorder\<lparr>d_Id := []\<rparr>,
      \<lparr>remote = [],
       calls = [CallDescribeConfigurationRecorders
                  \<lparr>ConfigurationRecorderNames = [Some ''default'']\<rparr>]\<rparr>)
   \<and> resourceConfigurationRecorderRead test_flattenRecordingGroup
       (config_client empty_list_ConfigService) my_recorder (world0 [remote_recorder])
     = (ReturnNil, my_recorder\<lparr>d_Id := []\<rparr>,
        \<lparr>remote = [remote_recorder],
         calls = [CallDescribeConfigurationRecorders
                    \<lparr>ConfigurationRecorderNames = [Some ''default'']\<rparr>]\<rparr>)
   \<and> resourceAccessPointRead (s3_client (store_S3Control [])) my_ap (world0 (False, None))
     = (ReturnNil, my_ap\<lparr>d_Id := []\<rparr>,
        \<lparr>remote = (False, None),
         calls = [CallGetAccessPoint \<lparr>AccountId = Some ''123456789012'',
                                     GetAccessPointInput.Name = Some ''my-ap''\<rparr>]\<rparr>)"
proof -
  have h1: "DescribeConfigurationRecorders (ConfigConn (config_client store_ConfigService))
              \<lparr>ConfigurationRecorderNames = [Some (d_Id my_recorder)]\<rparr> (remote (world0 []))
            = ((None, Some (AwsError ErrCodeNoSuchConfigurationRecorderException
                  ''Cannot find configuration recorder with the specified name'')), [])"
    by (simp add: config_client_def store_ConfigService_def world0_def
        err_NoSuchConfigurationRecorder_def ErrCodeNoSuchConfigurationRecorderException_def)
  have h2: "DescribeConfigurationRecorders (ConfigConn (config_client empty_list_ConfigService))
              \<lparr>ConfigurationRecorderNames = [Some (d_Id my_recorder)]\<rparr>
              (remote (world0 [remote_recorder]))
            = ((Some \<lparr>ConfigurationRecorders = []\<rparr>, None), [remote_recorder])
            \<and> ConfigurationRecorders \<lparr>ConfigurationRecorders = []\<rparr> = []"
    by (simp add: config_client_def empty_list_ConfigService_def world0_def)
  have h3: "AccessPointParseID (d_Id my_ap) = Inr (''123456789012'', ''my-ap'')
            \<and> GetAccessPoint (S3ControlConn (s3_client (store_S3Control [])))
                \<lparr>AccountId = Some ''123456789012'', GetAccessPointInput.Name = Some ''my-ap''\<rparr>
                (remote (world0 (False, None)))
              = ((None, Some (AwsError errCodeNoSuchAccessPoint
                                ''The specified accesspoint does not exist'')), (False, None))
            \<and> \<not> IsNewResource my_ap"
    by (simp add: my_ap_def parse_my_ap s3_client_def store_S3Control_def world0_def
        err_NoSuchAccessPoint_def errCodeNoSuchAccessPoint_def)
  note t = read_absent_clears_identifier
  from t [THEN conjunct1, rule_format, OF h1]
    t [THEN conjunct2, THEN conjunct1, rule_format, OF h2]
    t [THEN conjunct2, THEN conjunct2, rule_format, OF h3]
  show ?thesis
    by (simp add: world0_def my_recorder_def)
qed

section \<open>Create\<close>

lemma access_point_create_error:
  assumes "expandS3AccessPointPublicAccessBlockConfiguration
             (attr_public_access_block_configuration d) = Inr pab"
    and "expandS3AccessPointVpcConfiguration (attr_vpc_configuration d) = Inr vpc"
    and "accountId =
           (if attr_account_id d \<noteq> [] then attr_account_id d else AWSClient.AccountID meta)"
    and "input = \<lparr>AccountId = Some accountId,
                    GetAccessPointInput.Name = Some (attr_name d),
                    CreateAccessPointInput.Bucket = Some (attr_bucket d),
                    CreateAccessPointInput.PublicAccessBlockConfiguration = pab,
                    CreateAccessPointInput.VpcConfiguration = vpc\<rparr>"
    and "CreateAccessPoint (S3ControlConn meta) input (remote w) = ((output, Some e), r1)"
  shows "resourceAccessPointCreate meta d w =
           (ReturnErr (Errorf ''error creating S3 Control Access Point (%s): %w''
                         [ArgS (attr_name d), ArgE e]), d,
            \<lparr>remote = r1, calls = calls w @ [CallCreateAccessPoint input]\<rparr>)"
  using assms by (simp add: resourceAccessPointCreate_def Let_def issue_def)

lemma access_point_create_success:
  assumes "expandS3AccessPointPublicAccessBlockConfiguration
             (attr_public_access_block_configuration d) = Inr pab"
    and "expandS3AccessPointVpcConfiguration (attr_vpc_configuration d) = Inr vpc"
    and "accountId =
           (if attr_account_id d \<noteq> [] then attr_account_id d else AWSClient.AccountID meta)"
    and "input = \<lparr>AccountId = Some accountId,
                    GetAccessPointInput.Name = Some (attr_name d),
                    CreateAccessPointInput.Bucket = Some (attr_bucket d),
                    CreateAccessPointInput.PublicAccessBlockConfiguration = pab,
                    CreateAccessPointInput.VpcConfiguration = vpc\<rparr>"
    and "CreateAccessPoint (S3ControlConn meta) input (remote w) = ((Some out, None), r1)"
    and "outposts =
           (case arn_Parse (aws_StringValue (AccessPointArn out)) of
              Inl perr \<Rightarrow> False
            | Inr parsedARN \<Rightarrow> strings_HasPrefix (Resource parsedARN) ''outpost/'')"
    and "ident = (if outposts then aws_StringValue (AccessPointArn out)
                  else accountId @ '':'' @ attr_name d)"
    and "w1 = \<lparr>remote = r1, calls = calls w @ [CallCreateAccessPoint input]\<rparr>"
    and "pinput = \<lparr>AccountId = Some accountId,
                     GetAccessPointInput.Name =
                       Some (if outposts then aws_StringValue (AccessPointArn out)
                             else attr_name d),
                     PutAccessPointPolicyInput.Policy = Some (attr_policy d)\<rparr>"
  shows "attr_policy d = [] \<Longrightarrow>
           resourceAccessPointCreate meta d w =
             resourceAccessPointRead meta (d\<lparr>d_Id := ident\<rparr>) w1"
    and "attr_policy d \<noteq> [] \<Longrightarrow>
         PutAccessPointPolicy (S3ControlConn meta) pinput r1 = (None, r2) \<Longrightarrow>
           resourceAccessPointCreate meta d w =
             resourceAccessPointRead meta (d\<lparr>d_Id := ident\<rparr>)
               \<lparr>remote = r2, calls = calls w1 @ [CallPutAccessPointPolicy pinput]\<rparr>"
    and "attr_policy d \<noteq> [] \<Longrightarrow>
         PutAccessPointPolicy (S3ControlConn meta) pinput r1 = (Some e, r2) \<Longrightarrow>
           resourceAccessPointCreate meta d w =
             (ReturnErr (Errorf ''error putting S3 Access Point (%s) policy: %s''
                           [ArgS ident, ArgE e]), d\<lparr>d_Id := ident\<rparr>,
              \<lparr>remote = r2, calls = calls w1 @ [CallPutAccessPointPolicy pinput]\<rparr>)"
  using assms
  by (cases outposts; simp add: resourceAccessPointCreate_def Let_def issue_def)+

lemma recorder_put_error:
  assumes "(if attr_recording_group d \<noteq> [] then expand (attr_recording_group d)
            else Inr None) = Inr g"
    and "input = \<lparr>ConfigurationRecorder =
                    Some \<lparr>ConfigurationRecorder.Name = Some (attr_name d),
                          ConfigurationRecorder.RecordingGroup = g,
                          RoleARN = Some (attr_role_arn d)\<rparr>\<rparr>"
    and "PutConfigurationRecorder (ConfigConn meta) input (remote w) = (Some e, r1)"
  shows "resourceConfigurationRecorderPut expand flatten meta d w =
           (ReturnErr (Errorf ''Creating Configuration Recorder failed: %s'' [ArgE e]), d,
            \<lparr>remote = r1, calls = calls w @ [CallPutConfigurationRecorder input]\<rparr>)"
  using assms by (simp add: resourceConfigurationRecorderPut_def Let_def issue_def)

lemma recorder_put_success:
  assumes "(if attr_recording_group d \<noteq> [] then expand (attr_recording_group d)
            else Inr None) = Inr g"
    and "input = \<lparr>ConfigurationRecorder =
                    Some \<lparr>ConfigurationRecorder.Name = Some (attr_name d),
                          ConfigurationRecorder.RecordingGroup = g,
                          RoleARN = Some (attr_role_arn d)\<rparr>\<rparr>"
    and "PutConfigurationRecorder (ConfigConn meta) input (remote w) = (None, r1)"
  shows "resourceConfigurationRecorderPut expand flatten meta d w =
           resourceConfigurationRecorderRead flatten meta (d\<lparr>d_Id := attr_name d\<rparr>)
             \<lparr>remote = r1, calls = calls w @ [CallPutConfigurationRecorder input]\<rparr>"
  using assms by (simp add: resourceConfigurationRecorderPut_def Let_def issue_def)


lemma access_point_create_then_absent:
  assumes "expandS3AccessPointPublicAccessBlockConfiguration
             (attr_public_access_block_configuration d) = Inr pab"
    and "expandS3AccessPointVpcConfiguration (attr_vpc_configuration d) = Inr vpc"
    and "accountId =
           (if attr_account_id d \<noteq> [] then attr_account_id d else AWSClient.AccountID meta)"
    and "input = \<lparr>AccountId = Some accountId,
                    GetAccessPointInput.Name = Some (attr_name d),
                    CreateAccessPointInput.Bucket = Some (attr_bucket d),
                    CreateAccessPointInput.PublicAccessBlockConfiguration = pab,
                    CreateAccessPointInput.VpcConfiguration = vpc\<rparr>"
    and "CreateAccessPoint (S3ControlConn meta) input (remote w) = ((Some out, None), r1)"
    and "outposts =
           (case arn_Parse (aws_StringValue (AccessPointArn out)) of
              Inl perr \<Rightarrow> False
            | Inr parsedARN \<Rightarrow> strings_HasPrefix (Resource parsedARN) ''outpost/'')"
    and "ident = (if outposts then aws_StringValue (AccessPointArn out)
                  else accountId @ '':'' @ attr_name d)"
    and "attr_policy d = []"
    and "IsNewResource d"
    and "AccessPointParseID ident = Inr (account, name)"
    and "GetAccessPoint (S3ControlConn meta)
           \<lparr>AccountId = Some account, GetAccessPointInput.Name = Some name\<rparr> r1
         = ((output, Some (AwsError errCodeNoSuchAccessPoint msg)), r2)"
  shows "resourceAccessPointCreate meta d w =
           (ReturnErr (Errorf ''error reading S3 Access Point (%s): %w''
                         [ArgS ident, ArgE (AwsError errCodeNoSuchAccessPoint msg)]),
            d\<lparr>d_Id := ident\<rparr>,
            \<lparr>remote = r2,
             calls = calls w @ [CallCreateAccessPoint input,
                                CallGetAccessPoint
                                  \<lparr>AccountId = Some account,
                                   GetAccessPointInput.Name = Some name\<rparr>]\<rparr>)"
proof -
  let ?w1 = "\<lparr>remote = r1, calls = calls w @ [CallCreateAccessPoint input]\<rparr>"
  let ?d1 = "d\<lparr>d_Id := ident\<rparr>"
  have "resourceAccessPointCreate meta d w = resourceAccessPointRead meta ?d1 ?w1"
    using assms(1-8) by (intro access_point_create_success(1)) simp_all
  moreover have "resourceAccessPointRead meta ?d1 ?w1 =
      (ReturnErr (Errorf ''error reading S3 Access Point (%s): %w''
                    [ArgS (d_Id ?d1), ArgE (AwsError errCodeNoSuchAccessPoint msg)]), ?d1,
       \<lparr>remote = r2,
        calls = calls ?w1 @ [CallGetAccessPoint
          \<lparr>AccountId = Some account, GetAccessPointInput.Name = Some name\<rparr>]\<rparr>)"
    using assms(9-11) by (intro access_point_read_absent_new) simp_all
  ultimately show ?thesis by simp
qed

text \<open>
  Claim C6. A Create whose remote mutation calls succeed derives the identifier from the
  creation result: the ARN that the remote service assigned when it is the ARN of an
  access point on Outposts (it parses and its resource starts with \<^verbatim>\<open>outpost/\<close>),
  and the composite \<^verbatim>\<open>accountId:name\<close> otherwise; it stores the identifier and ends
  with Read on the resource so identified. When the remote API reports an error, Create
  returns an error that carries it. The configuration recorder stores its name and ends
  with Read in the same way.
\<close>

theorem create_stores_identifier_then_reads:
  "(\<forall>meta d (w :: 'r world) pab vpc accountId input output err r1 w1.
      expandS3AccessPointPublicAccessBlockConfiguration
        (attr_public_access_block_configuration d) = Inr pab
      \<and> expandS3AccessPointVpcConfiguration (attr_vpc_configuration d) = Inr vpc
      \<and> accountId =
          (if attr_account_id d \<noteq> [] then attr_account_id d else AWSClient.AccountID meta)
      \<and> input = \<lparr>AccountId = Some accountId,
                   GetAccessPointInput.Name = Some (attr_name d),
                   CreateAccessPointInput.Bucket = Some (attr_bucket d),
                   CreateAccessPointInput.PublicAccessBlockConfiguration = pab,
                   CreateAccessPointInput.VpcConfiguration = vpc\<rparr>
      \<and> CreateAccessPoint (S3ControlConn meta) input (remote w) = ((output, err), r1)
      \<and> w1 = \<lparr>remote = r1, calls = calls w @ [CallCreateAccessPoint input]\<rparr>
      \<longrightarrow>
      (\<forall>e. err = Some e \<longrightarrow>
         resourceAccessPointCreate meta d w =
           (ReturnErr (Errorf ''error creating S3 Control Access Point (%s): %w''
                         [ArgS (attr_name d), ArgE e]), d, w1))
      \<and> (\<forall>out outposts ident pinput r2.
           err = None \<and> output = Some out
           \<and> outposts =
               (case arn_Parse (aws_StringValue (AccessPointArn out)) of
                  Inl perr \<Rightarrow> False
                | Inr parsedARN \<Rightarrow> strings_HasPrefix (Resource parsedARN) ''outpost/'')
           \<and> ident = (if outposts then aws_StringValue (AccessPointArn out)
                       else accountId @ '':'' @ attr_name d)
           \<and> pinput = \<lparr>AccountId = Some accountId,
                         GetAccessPointInput.Name =
                           Some (if outposts then aws_StringValue (AccessPointArn out)
                                 else attr_name d),
                         PutAccessPointPolicyInput.Policy = Some (attr_policy d)\<rparr>
           \<longrightarrow>
           (attr_policy d = [] \<longrightarrow>
              resourceAccessPointCreate meta d w =
                resourceAccessPointRead meta (d\<lparr>d_Id := ident\<rparr>) w1)
           \<and> (attr_policy d \<noteq> []
                \<and> PutAccessPointPolicy (S3ControlConn meta) pinput r1 = (None, r2) \<longrightarrow>
              resourceAccessPointCreate meta d w =
                resourceAccessPointRead meta (d\<lparr>d_Id := ident\<rparr>)
                  \<lparr>remote = r2, calls = calls w1 @ [CallPutAccessPointPolicy pinput]\<rparr>)
           \<and> (\<forall>e. attr_policy d \<noteq> []
                \<and> PutAccessPointPolicy (S3ControlConn meta) pinput r1 = (Some e, r2) \<longrightarrow>
              resourceAccessPointCreate meta d w =
                (ReturnErr (Errorf ''error putting S3 Access Point (%s) policy: %s''
                              [ArgS ident, ArgE e]), d\<lparr>d_Id := ident\<rparr>,
                 \<lparr>remote = r2, calls = calls w1 @ [CallPutAccessPointPolicy pinput]\<rparr>))))
   \<and> (\<forall>expand flatten meta d (w :: 'r world) g input err r1 w1.
        (if attr_recording_group d \<noteq> [] then expand (attr_recording_group d)
         else Inr None) = Inr g
        \<and> input = \<lparr>ConfigurationRecorder =
                       Some \<lparr>ConfigurationRecorder.Name = Some (attr_name d),
                             ConfigurationRecorder.RecordingGroup = g,
                             RoleARN = Some (attr_role_arn d)\<rparr>\<rparr>
        \<and> PutConfigurationRecorder (ConfigConn meta) input (remote w) = (err, r1)
        \<and> w1 = \<lparr>remote = r1, calls = calls w @ [CallPutConfigurationRecorder input]\<rparr>
        \<longrightarrow>
        (err = None \<longrightarrow>
           resourceConfigurationRecorderPut expand flatten meta d w =
             resourceConfigurationRecorderRead flatten meta (d\<lparr>d_Id := attr_name d\<rparr>) w1)
        \<and> (\<forall>e. err = Some e \<longrightarrow>
             resourceConfigurationRecorderPut expand flatten meta d w =
               (ReturnErr (Errorf ''Creating Configuration Recorder failed: %s'' [ArgE e]),
                d, w1)))"
proof (intro conjI allI impI, goal_cases)
  case (1 meta d w pab vpc accountId inp outp err r1 w1 e)
  then show ?case
    by (intro access_point_create_error [where pab = pab and vpc = vpc, THEN trans]) auto
next
  case (2 meta d w pab vpc accountId inp outp err r1 w1 out outposts ident pinput r2)
  then show ?case
    by (intro access_point_create_success(1)
          [where pab = pab and vpc = vpc and out = out and outposts = outposts
             and accountId = accountId and input = inp]) auto
next
  case (3 meta d w pab vpc accountId inp outp err r1 w1 out outposts ident pinput r2)
  then show ?case
    by (intro access_point_create_success(2)
          [where pab = pab and vpc = vpc and out = out and outposts = outposts
             and accountId = accountId and input = inp]) auto
next
  case (4 meta d w pab vpc accountId inp outp err r1 w1 out outposts ident pinput r2 e)
  then show ?case
    by (intro access_point_create_success(3)
          [where pab = pab and vpc = vpc and out = out and outposts = outposts
             and accountId = accountId and input = inp]) auto
next
  case (5 expand flatten meta d w g inp err r1 w1)
  then show ?case
    by (intro recorder_put_success [where g = g, THEN trans]) auto
next
  case (6 expand flatten meta d w g inp err r1 w1 e)
  then show ?case
    by (intro recorder_put_error [where g = g, THEN trans]) auto
qed


section \<open>Read when the access point exists\<close>

lemma flatten_pab_accepted:
  "Set_block public_access_block_configuration_schema
     (flattenS3AccessPointPublicAccessBlockConfiguration c) = None"
  by (cases c)
     (auto simp: Set_block_def flattenS3AccessPointPublicAccessBlockConfiguration_def
        element_conforms_def public_access_block_configuration_schema_def fmpred_iff
        split: if_splits)

lemma flatten_vpc_accepted:
  "Set_block vpc_configuration_schema (flattenS3AccessPointVpcConfiguration c) = None"
  by (cases c)
     (auto simp: Set_block_def flattenS3AccessPointVpcConfiguration_def
        element_conforms_def vpc_configuration_schema_def fmpred_iff split: if_splits)

text \<open>The values that Read flattens always fit the schema, so Read never fails in
  setting them.\<close>

lemma readOutputFields_ok: "fst (readOutputFields meta accountId out d) = None"
  by (simp add: readOutputFields_def Let_def flatten_pab_accepted flatten_vpc_accepted)

lemma read_primary_ok:
  assumes "AccessPointParseID (d_Id d) = Inr (accountId, name)"
    and "GetAccessPoint (S3ControlConn meta)
           \<lparr>AccountId = Some accountId, GetAccessPointInput.Name = Some name\<rparr> (remote w)
         = ((Some out, None), r1)"
    and "readArnAndBucket meta accountId name out d = Inr d1"
  shows "resourceAccessPointRead meta d w =
           readPolicy meta accountId name (snd (readOutputFields meta accountId out d1))
             \<lparr>remote = r1,
              calls = calls w @ [CallGetAccessPoint
                \<lparr>AccountId = Some accountId, GetAccessPointInput.Name = Some name\<rparr>]\<rparr>"
proof -
  obtain d2 where "readOutputFields meta accountId out d1 = (None, d2)"
    using readOutputFields_ok [of meta accountId out d1]
    by (cases "readOutputFields meta accountId out d1") auto
  with assms show ?thesis
    by (simp add: resourceAccessPointRead_def issue_def ErrCodeEquals_def)
qed

lemma readPolicy_absent:
  assumes "GetAccessPointPolicy (S3ControlConn meta)
             \<lparr>AccountId = Some accountId, GetAccessPointInput.Name = Some name\<rparr> (remote w)
           = ((po, Some (AwsError ''NoSuchAccessPointPolicy'' msg)), r)"
  shows "readPolicy meta accountId name d w =
           readPolicyStatus meta accountId name (d\<lparr>attr_policy := []\<rparr>)
             \<lparr>remote = r,
              calls = calls w @ [CallGetAccessPointPolicy
                \<lparr>AccountId = Some accountId, GetAccessPointInput.Name = Some name\<rparr>]\<rparr>"
  using assms by (simp add: readPolicy_def issue_def ErrMessageContains_def)

lemma readPolicy_present:
  assumes "GetAccessPointPolicy (S3ControlConn meta)
             \<lparr>AccountId = Some accountId, GetAccessPointInput.Name = Some name\<rparr> (remote w)
           = ((Some po, None), r)"
  shows "readPolicy meta accountId name d w =
           readPolicyStatus meta accountId name
             (d\<lparr>attr_policy := aws_StringValue (GetAccessPointPolicyOutput.Policy po)\<rparr>)
             \<lparr>remote = r,
              calls = calls w @ [CallGetAccessPointPolicy
                \<lparr>AccountId = Some accountId, GetAccessPointInput.Name = Some name\<rparr>]\<rparr>"
  using assms by (simp add: readPolicy_def issue_def ErrMessageContains_def)

lemma readPolicyStatus_outposts:
  assumes "strings_HasPrefix name ''arn:''"
  shows "readPolicyStatus meta accountId name d w =
           (ReturnNil, d\<lparr>attr_has_public_access_policy := False\<rparr>, w)"
  using assms by (simp add: readPolicyStatus_def)

lemma readPolicyStatus_absent:
  assumes "\<not> strings_HasPrefix name ''arn:''"
    and "GetAccessPointPolicyStatus (S3ControlConn meta)
           \<lparr>AccountId = Some accountId, GetAccessPointInput.Name = Some name\<rparr> (remote w)
         = ((pso, Some (AwsError ''NoSuchAccessPointPolicy'' msg)), r)"
  shows "readPolicyStatus meta accountId name d w =
           (ReturnNil, d\<lparr>attr_has_public_access_policy := False\<rparr>,
            \<lparr>remote = r,
             calls = calls w @ [CallGetAccessPointPolicyStatus
               \<lparr>AccountId = Some accountId, GetAccessPointInput.Name = Some name\<rparr>]\<rparr>)"
  using assms by (simp add: readPolicyStatus_def issue_def ErrMessageContains_def)

lemma readPolicyStatus_present:
  assumes "\<not> strings_HasPrefix name ''arn:''"
    and "GetAccessPointPolicyStatus (S3ControlConn meta)
           \<lparr>AccountId = Some accountId, GetAccessPointInput.Name = Some name\<rparr> (remote w)
         = ((Some pso, None), r)"
    and "PolicyStatus pso = Some ps"
  shows "readPolicyStatus meta accountId name d w =
           (ReturnNil, d\<lparr>attr_has_public_access_policy := aws_BoolValue (IsPublic ps)\<rparr>,
            \<lparr>remote = r,
             calls = calls w @ [CallGetAccessPointPolicyStatus
               \<lparr>AccountId = Some accountId, GetAccessPointInput.Name = Some name\<rparr>]\<rparr>)"
  using assms by (simp add: readPolicyStatus_def issue_def ErrMessageContains_def)

lemma readPolicyStatus_other_error:
  assumes "\<not> strings_HasPrefix name ''arn:''"
    and "GetAccessPointPolicyStatus (S3ControlConn meta)
           \<lparr>AccountId = Some accountId, GetAccessPointInput.Name = Some name\<rparr> (remote w)
         = ((pso, Some e), r)"
    and "\<not> ErrMessageContains (Some e) ''NoSuchAccessPointPolicy'' []"
  shows "readPolicyStatus meta accountId name d w =
           (ReturnErr (Errorf ''error reading S3 Access Point (%s) policy status: %s''
                         [ArgS (d_Id d), ArgE e]), d,
            \<lparr>remote = r,
             calls = calls w @ [CallGetAccessPointPolicyStatus
               \<lparr>AccountId = Some accountId, GetAccessPointInput.Name = Some name\<rparr>]\<rparr>)"
  using assms by (simp add: readPolicyStatus_def issue_def)


text \<open>
  Claim C8. In an access point Read whose primary lookup succeeds, a secondary lookup
  that reports \<^verbatim>\<open>NoSuchAccessPointPolicy\<close> does not make Read fail: an absent policy
  is stored as the empty string, an absent policy status as
  \<^verbatim>\<open>has_public_access_policy = false\<close>, and Read returns nil. The cases are: the policy
  is absent and the access point is on Outposts, where no policy status is looked up;
  both are absent; only the policy status is absent; only the policy is absent.
\<close>

theorem read_tolerates_absent_secondary_data:
  assumes "AccessPointParseID (d_Id d) = Inr (accountId, name)"
    and "key = \<lparr>AccountId = Some accountId, GetAccessPointInput.Name = Some name\<rparr>"
    and "GetAccessPoint (S3ControlConn meta) key (remote w) = ((Some out, None), r1)"
    and "readArnAndBucket meta accountId name out d = Inr d1"
    and "d2 = snd (readOutputFields meta accountId out d1)"
    and "GetAccessPointPolicy (S3ControlConn meta) key r1 = ((po, perr), r2)"
    and "GetAccessPointPolicyStatus (S3ControlConn meta) key r2 = ((pso, serr), r3)"
    and "w2 = \<lparr>remote = r2,
               calls = calls w @ [CallGetAccessPoint key, CallGetAccessPointPolicy key]\<rparr>"
    and "w3 = \<lparr>remote = r3,
               calls = calls w @ [CallGetAccessPoint key, CallGetAccessPointPolicy key,
                                  CallGetAccessPointPolicyStatus key]\<rparr>"
  shows "(\<forall>msg. perr = Some (AwsError ''NoSuchAccessPointPolicy'' msg)
            \<and> strings_HasPrefix name ''arn:'' \<longrightarrow>
            resourceAccessPointRead meta d w =
              (ReturnNil,
               d2\<lparr>attr_policy := [], attr_has_public_access_policy := False\<rparr>, w2))
         \<and> (\<forall>msg smsg. perr = Some (AwsError ''NoSuchAccessPointPolicy'' msg)
              \<and> \<not> strings_HasPrefix name ''arn:''
              \<and> serr = Some (AwsError ''NoSuchAccessPointPolicy'' smsg) \<longrightarrow>
              resourceAccessPointRead meta d w =
                (ReturnNil,
                 d2\<lparr>attr_policy := [], attr_has_public_access_policy := False\<rparr>, w3))
         \<and> (\<forall>p smsg. perr = None \<and> po = Some p
              \<and> \<not> strings_HasPrefix name ''arn:''
              \<and> serr = Some (AwsError ''NoSuchAccessPointPolicy'' smsg) \<longrightarrow>
              resourceAccessPointRead meta d w =
                (ReturnNil,
                 d2\<lparr>attr_policy := aws_StringValue (GetAccessPointPolicyOutput.Policy p),
                    attr_has_public_access_policy := False\<rparr>, w3))
         \<and> (\<forall>msg s ps. perr = Some (AwsError ''NoSuchAccessPointPolicy'' msg)
              \<and> \<not> strings_HasPrefix name ''arn:''
              \<and> serr = None \<and> pso = Some s \<and> PolicyStatus s = Some ps \<longrightarrow>
              resourceAccessPointRead meta d w =
                (ReturnNil,
                 d2\<lparr>attr_policy := [],
                    attr_has_public_access_policy := aws_BoolValue (IsPublic ps)\<rparr>, w3))"
proof -
  let ?w1 = "\<lparr>remote = r1, calls = calls w @ [CallGetAccessPoint key]\<rparr>"
  have primary: "resourceAccessPointRead meta d w = readPolicy meta accountId name d2 ?w1"
    using assms(1-5) by (simp add: read_primary_ok)
  have absent: "readPolicy meta accountId name d2 ?w1 =
      readPolicyStatus meta accountId name (d2\<lparr>attr_policy := []\<rparr>) w2"
    if "perr = Some (AwsError ''NoSuchAccessPointPolicy'' msg)" for msg
    using that assms(2,6,8) by (simp add: readPolicy_absent)
  have present: "readPolicy meta accountId name d2 ?w1 =
      readPolicyStatus meta accountId name
        (d2\<lparr>attr_policy := aws_StringValue (GetAccessPointPolicyOutput.Policy p)\<rparr>) w2"
    if "perr = None" and "po = Some p" for p
    using that assms(2,6,8) by (simp add: readPolicy_present)
  have status_absent: "readPolicyStatus meta accountId name d' w2 =
      (ReturnNil, d'\<lparr>attr_has_public_access_policy := False\<rparr>, w3)"
    if "\<not> strings_HasPrefix name ''arn:''"
      and "serr = Some (AwsError ''NoSuchAccessPointPolicy'' smsg)" for d' smsg
    using that assms(2,7,8,9) by (simp add: readPolicyStatus_absent)
  have status_present: "readPolicyStatus meta accountId name d' w2 =
      (ReturnNil, d'\<lparr>attr_has_public_access_policy := aws_BoolValue (IsPublic ps)\<rparr>, w3)"
    if "\<not> strings_HasPrefix name ''arn:''" and "serr = None" and "pso = Some s"
      and "PolicyStatus s = Some ps" for d' s ps
    using that assms(2,7,8,9) by (simp add: readPolicyStatus_present)
  show ?thesis
    by (intro conjI allI impI)
       (simp_all add: primary absent present status_absent status_present
          readPolicyStatus_outposts)
qed


lemma parse_outposts_arn:
  "arn_Parse outposts_arn
     = Inr \<lparr>ARN.Partition = ''aws'', Service = ''s3-outposts'', ARN.Region = ''us-west-2'',
            ARN.AccountID = ''123456789012'',
            Resource = ''outpost/op-1/accesspoint/my-ap''\<rparr>"
  "AccessPointParseID outposts_arn = Inr (''123456789012'', outposts_arn)"
  "strings_HasPrefix outposts_arn ''arn:''"
  by (simp_all add: AccessPointParseID_def arn_Parse_def strings_HasPrefix_def
      outposts_arn_def eval_nat_numeral)

lemma readArnAndBucket_my_ap:
  "readArnAndBucket (s3_client conn) ''123456789012'' ''my-ap'' my_ap_output d
     = Inr (d\<lparr>attr_arn := ''arn:aws:s3:us-west-2:123456789012:accesspoint/my-ap'',
               attr_bucket := ''my-bucket''\<rparr>)"
  by (simp add: readArnAndBucket_def strings_HasPrefix_def s3_client_def my_ap_output_def
      aws_StringValue_def arn_String_def)

lemma readArnAndBucket_outposts:
  "readArnAndBucket (s3_client conn) ''123456789012'' outposts_arn my_ap_output d
     = Inr (d\<lparr>attr_arn := outposts_arn,
               attr_bucket :=
                 ''arn:aws:s3-outposts:us-west-2:123456789012:outpost/op-1/bucket/my-bucket''\<rparr>)"
  by (simp add: readArnAndBucket_def parse_outposts_arn my_ap_output_def
      aws_StringValue_def arn_String_def)

theorem read_tolerates_absent_secondary_data_witness:
  "fst (resourceAccessPointRead (s3_client (store_S3Control []))
          (my_ap\<lparr>d_Id := outposts_arn\<rparr>) (world0 (True, None))) = ReturnNil
   \<and> attr_policy (fst (snd (resourceAccessPointRead (s3_client (store_S3Control []))
          (my_ap\<lparr>d_Id := outposts_arn\<rparr>) (world0 (True, None))))) = []
   \<and> fst (resourceAccessPointRead (s3_client (store_S3Control [])) my_ap
            (world0 (True, None))) = ReturnNil
   \<and> attr_policy (fst (snd (resourceAccessPointRead (s3_client (store_S3Control [])) my_ap
            (world0 (True, None))))) = []
   \<and> \<not> attr_has_public_access_policy
          (fst (snd (resourceAccessPointRead (s3_client (store_S3Control [])) my_ap
            (world0 (True, None)))))
   \<and> fst (resourceAccessPointRead (s3_client policy_without_status_S3Control) my_ap
            (world0 (True, Some ''{}''))) = ReturnNil
   \<and> attr_policy (fst (snd (resourceAccessPointRead
          (s3_client policy_without_status_S3Control) my_ap
            (world0 (True, Some ''{}''))))) = ''{}''
   \<and> fst (resourceAccessPointRead (s3_client status_without_policy_S3Control) my_ap
            (world0 (True, Some ''{}''))) = ReturnNil
   \<and> attr_policy (fst (snd (resourceAccessPointRead
          (s3_client status_without_policy_S3Control) my_ap
            (world0 (True, Some ''{}''))))) = []"
proof -
  note t = read_tolerates_absent_secondary_data
  note defs = s3_client_def store_S3Control_def world0_def my_ap_def
    err_NoSuchAccessPointPolicy_def policy_without_status_S3Control_def
    status_without_policy_S3Control_def
  let ?key = "\<lparr>AccountId = Some ''123456789012'', GetAccessPointInput.Name = Some ''my-ap''\<rparr>"
  let ?okey = "\<lparr>AccountId = Some ''123456789012'', GetAccessPointInput.Name = Some outposts_arn\<rparr>"
  have np: "\<not> strings_HasPrefix ''my-ap'' ''arn:''"
    by (simp add: strings_HasPrefix_def)
  have a: "resourceAccessPointRead (s3_client (store_S3Control []))
             (my_ap\<lparr>d_Id := outposts_arn\<rparr>) (world0 (True, None))
           = (ReturnNil,
              (snd (readOutputFields (s3_client (store_S3Control [])) ''123456789012''
                  my_ap_output
                  (my_ap\<lparr>d_Id := outposts_arn, attr_arn := outposts_arn,
                     attr_bucket :=
                       ''arn:aws:s3-outposts:us-west-2:123456789012:outpost/op-1/bucket/my-bucket''\<rparr>)))
                \<lparr>attr_policy := [], attr_has_public_access_policy := False\<rparr>,
              \<lparr>remote = (True, None),
               calls = [CallGetAccessPoint ?okey, CallGetAccessPointPolicy ?okey]\<rparr>)"
    using t [where d = "my_ap\<lparr>d_Id := outposts_arn\<rparr>" and accountId = "''123456789012''"
        and name = outposts_arn and key = ?okey
        and meta = "s3_client (store_S3Control [])" and w = "world0 (True, None)"
        and out = my_ap_output, OF _ refl _ _ refl _ _ refl refl,
        THEN conjunct1, rule_format]
    by (simp add: defs parse_outposts_arn readArnAndBucket_outposts [unfolded s3_client_def])
  have b: "resourceAccessPointRead (s3_client (store_S3Control [])) my_ap (world0 (True, None))
           = (ReturnNil,
              (snd (readOutputFields (s3_client (store_S3Control [])) ''123456789012''
                  my_ap_output
                  (my_ap\<lparr>attr_arn := ''arn:aws:s3:us-west-2:123456789012:accesspoint/my-ap'',
                     attr_bucket := ''my-bucket''\<rparr>)))
                \<lparr>attr_policy := [], attr_has_public_access_policy := False\<rparr>,
              \<lparr>remote = (True, None),
               calls = [CallGetAccessPoint ?key, CallGetAccessPointPolicy ?key,
                    CallGetAccessPointPolicyStatus ?key]\<rparr>)"
    using np t [where d = my_ap and accountId = "''123456789012''"
        and name = "''my-ap''" and key = ?key
        and meta = "s3_client (store_S3Control [])" and w = "world0 (True, None)"
        and out = my_ap_output, OF _ refl _ _ refl _ _ refl refl,
        THEN conjunct2, THEN conjunct1, rule_format]
    by (simp add: defs parse_my_ap readArnAndBucket_my_ap [unfolded s3_client_def])
  have c: "resourceAccessPointRead (s3_client policy_without_status_S3Control) my_ap
             (world0 (True, Some ''{}''))
           = (ReturnNil,
              (snd (readOutputFields (s3_client policy_without_status_S3Control)
                  ''123456789012'' my_ap_output
                  (my_ap\<lparr>attr_arn := ''arn:aws:s3:us-west-2:123456789012:accesspoint/my-ap'',
                     attr_bucket := ''my-bucket''\<rparr>)))
                \<lparr>attr_policy := ''{}'', attr_has_public_access_policy := False\<rparr>,
              \<lparr>remote = (True, Some ''{}''),
               calls = [CallGetAccessPoint ?key, CallGetAccessPointPolicy ?key,
                    CallGetAccessPointPolicyStatus ?key]\<rparr>)"
    using np t [where d = my_ap and accountId = "''123456789012''"
        and name = "''my-ap''" and key = ?key
        and meta = "s3_client policy_without_status_S3Control"
        and w = "world0 (True, Some ''{}'')"
        and out = my_ap_output, OF _ refl _ _ refl _ _ refl refl,
        THEN conjunct2, THEN conjunct2, THEN conjunct1, rule_format]
    by (simp add: defs parse_my_ap readArnAndBucket_my_ap [unfolded s3_client_def]
        aws_StringValue_def)
  have d: "resourceAccessPointRead (s3_client status_without_policy_S3Control) my_ap
             (world0 (True, Some ''{}''))
           = (ReturnNil,
              (snd (readOutputFields (s3_client status_without_policy_S3Control)
                  ''123456789012'' my_ap_output
                  (my_ap\<lparr>attr_arn := ''arn:aws:s3:us-west-2:123456789012:accesspoint/my-ap'',
                     attr_bucket := ''my-bucket''\<rparr>)))
                \<lparr>attr_policy := [], attr_has_public_access_policy := False\<rparr>,
              \<lparr>remote = (True, Some ''{}''),
               calls = [CallGetAccessPoint ?key, CallGetAccessPointPolicy ?key,
                    CallGetAccessPointPolicyStatus ?key]\<rparr>)"
    using np t [where d = my_ap and accountId = "''123456789012''"
        and name = "''my-ap''" and key = ?key
        and meta = "s3_client status_without_policy_S3Control"
        and w = "world0 (True, Some ''{}'')"
        and out = my_ap_output, OF _ refl _ _ refl _ _ refl refl,
        THEN conjunct2, THEN conjunct2, THEN conjunct2, rule_format]
    by (simp add: defs parse_my_ap readArnAndBucket_my_ap [unfolded s3_client_def]
        aws_BoolValue_def)
  show ?thesis
    by (simp add: a b c d)
qed


end
